theory Spec2Isabelle
  imports Complex_Main "HOL-Library.Word" "HOL-Library.Signed_Division"
begin

section \<open>Machine integers of the Go program\<close>

text \<open>
  The program is Go on a 64-bit platform: \<open>int\<close>, \<open>int64\<close> and \<open>time.Duration\<close> (an
  \<open>int64\<close> count of nanoseconds) are 64-bit two's complement integers whose arithmetic
  wraps around. They are \<open>64 word\<close> here; \<open>+\<close> wraps, \<open>sint\<close> reads the signed value,
  \<open><s\<close> and \<open>\<le>s\<close> are Go's signed comparisons. \<open>uint64\<close> is the same word read by
  \<open>unat\<close>.
\<close>

type_synonym int64 = "64 word"
type_synonym go_int = "64 word"
type_synonym uint64 = "64 word"
type_synonym Duration = "64 word"

text \<open>
  Go's \<open>/\<close> on signed integers truncates towards zero and wraps in the one overflowing
  case \<open>MinInt64 / -1\<close>. Division by zero panics in Go; the only division of the
  program is guarded by \<open>TotalRequests > 0\<close>.
\<close>

definition int64_div :: "int64 \<Rightarrow> int64 \<Rightarrow> int64" where
  "int64_div a b = word_of_int (sint a sdiv sint b)"

section \<open>Results of calls: value, error or panic\<close>

text \<open>
  A Go call that returns \<open>(value, error)\<close> either returns a value (\<open>Ok\<close>), returns an
  error (\<open>Err\<close>, carrying the text of \<open>err.Error()\<close>), or panics (\<open>Panic\<close>, carrying the
  panic message). No function of the program recovers from a panic, so a panic ends the
  process.
\<close>

datatype 'a result = Ok 'a | Err string | Panic string

section \<open>Random source (crypto/rand)\<close>

text \<open>
  One use of \<open>rand.Reader\<close> by \<open>rand.Int\<close>: the reads either fail with an error or
  deliver entropy, an arbitrary natural number. \<open>rand.Int(rand.Reader, max)\<close> of the
  standard library panics when \<open>max \<le> 0\<close>; for \<open>max = 1\<close> it returns 0 without
  reading (the only valid result); otherwise it returns the reader's error, or a number
  in \<open>[0, max)\<close>. That number is the entropy reduced into the range, so that every
  value of the range is the result of some entropy.
\<close>

datatype draw = Entropy nat | ReadError string

definition rand_Int :: "draw \<Rightarrow> int \<Rightarrow> int result" where
  "rand_Int d max' =
     (if max' \<le> 0 then Panic ''crypto/rand: argument to Int is <= 0''
      else if max' = 1 then Ok 0
      else case d of ReadError e \<Rightarrow> Err e | Entropy k \<Rightarrow> Ok (int k mod max'))"

section \<open>Parameter generators (package config)\<close>

text \<open>
  The weighted draw uses five \<open>float64\<close> operations: the constant \<open>0.0\<close>, \<open>x + y\<close>,
  \<open>x <= y\<close>, \<open>int64(x * 1000)\<close> and \<open>float64(n) / 1000.0\<close>. The functions of the
  weighted draw take them as the parameter \<open>ops\<close>, over an arbitrary type \<open>'f\<close> of
  \<open>float64\<close> values: what is proved for every \<open>ops\<close> holds for the IEEE 754 arithmetic
  of the program, with its rounding, its infinities and NaN.
\<close>

record 'f float64_ops =
  f_zero :: 'f
  f_add :: "'f \<Rightarrow> 'f \<Rightarrow> 'f"
  f_le :: "'f \<Rightarrow> 'f \<Rightarrow> bool"
  int64_of_times_1000 :: "'f \<Rightarrow> int64"
  div_1000_of_int64 :: "int \<Rightarrow> 'f"

text \<open>
  \<open>exact_ops\<close> reads \<open>float64\<close> values as the real numbers they denote and computes
  without rounding. It agrees with \<open>float64\<close> arithmetic wherever operands and results
  are representable; the evaluations below use it at such inputs only. The conversion
  \<open>int64(x)\<close> truncates towards zero; outside the range of \<open>int64\<close> it yields
  \<open>MinInt64\<close>, as the program does on amd64.
\<close>

type_synonym float64 = real

definition float64_to_int64 :: "float64 \<Rightarrow> int64" where
  "float64_to_int64 x =
     (let t = (if 0 \<le> x then \<lfloor>x\<rfloor> else \<lceil>x\<rceil>) in
      if - (2 ^ 63) \<le> t \<and> t < 2 ^ 63 then word_of_int t else - 0x8000000000000000)"

definition exact_ops :: "float64 float64_ops" where
  "exact_ops =
     \<lparr>f_zero = 0, f_add = (+), f_le = (\<le>),
      int64_of_times_1000 = (\<lambda>x. float64_to_int64 (x * 1000)),
      div_1000_of_int64 = (\<lambda>n. of_int n / 1000)\<rparr>"

text \<open>Indexing a slice panics out of range.\<close>

definition index :: "'a list \<Rightarrow> nat \<Rightarrow> 'a result" where
  "index xs i = (if i < length xs then Ok (xs ! i) else Panic ''index out of range'')"

text \<open>\<open>RandomIntGenerator.Generate\<close>, with the fields \<open>Min\<close> and \<open>Max\<close> as arguments.\<close>

definition RandomIntGenerator_Generate :: "go_int \<Rightarrow> go_int \<Rightarrow> draw \<Rightarrow> go_int result" where
  "RandomIntGenerator_Generate Min' Max' d =
     (if Max' \<le>s Min' then Ok Min'
      else let rangeSize = Max' - Min' + 1 in
        case rand_Int d (sint rangeSize) of
          Panic m \<Rightarrow> Panic m
        | Err e \<Rightarrow> Err (''failed to generate random int: '' @ e)
        | Ok num \<Rightarrow> Ok (Min' + word_of_int num))"

text \<open>
  The second loop of \<open>generateWeightedChoice\<close>: \<open>i\<close> is the index, \<open>cumulative\<close> the
  running sum; after the loop the last value is returned.
\<close>

fun weighted_walk ::
  "'f float64_ops \<Rightarrow> 'a list \<Rightarrow> 'f \<Rightarrow> 'f \<Rightarrow> nat \<Rightarrow> 'f list \<Rightarrow> 'a result" where
  "weighted_walk ops Values target cumulative i [] = index Values (length Values - 1)"
| "weighted_walk ops Values target cumulative i (weight # rest) =
     (let cumulative' = f_add ops cumulative weight in
      if f_le ops target cumulative' then index Values i
      else weighted_walk ops Values target cumulative' (i + 1) rest)"

definition generateWeightedChoice ::
  "'f float64_ops \<Rightarrow> 'a list \<Rightarrow> 'f list \<Rightarrow> draw \<Rightarrow> 'a result" where
  "generateWeightedChoice ops Values Weights d =
     (let totalWeight = foldl (f_add ops) (f_zero ops) Weights in
      if f_le ops totalWeight (f_zero ops) then index Values 0
      else case rand_Int d (sint (int64_of_times_1000 ops totalWeight)) of
          Panic m \<Rightarrow> Panic m
        | Err e \<Rightarrow> Err (''failed to generate weighted choice: '' @ e)
        | Ok num \<Rightarrow>
            weighted_walk ops Values (div_1000_of_int64 ops num) (f_zero ops) 0 Weights)"

definition ChoiceGenerator_Generate ::
  "'f float64_ops \<Rightarrow> 'a list \<Rightarrow> 'f list \<Rightarrow> draw \<Rightarrow> 'a result" where
  "ChoiceGenerator_Generate ops Values Weights d =
     (if length Values = 0 then Err ''no values provided for choice generator''
      else if length Weights > 0 \<and> length Weights = length Values
      then generateWeightedChoice ops Values Weights d
      else case rand_Int d (int (length Values)) of
          Panic m \<Rightarrow> Panic m
        | Err e \<Rightarrow> Err (''failed to generate choice: '' @ e)
        | Ok num \<Rightarrow> index Values (nat num))"

definition getCharset :: "string \<Rightarrow> string" where
  "getCharset charsetType =
     (if charsetType = ''alpha'' then ''abcdefghijklmnopqrstuvwxyzABCDEFGHIJKLMNOPQRSTUVWXYZ''
      else if charsetType = ''alpha_lower'' then ''abcdefghijklmnopqrstuvwxyz''
      else if charsetType = ''alpha_upper'' then ''ABCDEFGHIJKLMNOPQRSTUVWXYZ''
      else if charsetType = ''numeric'' then ''0123456789''
      else if charsetType = ''alphanumeric''
        then ''abcdefghijklmnopqrstuvwxyzABCDEFGHIJKLMNOPQRSTUVWXYZ0123456789''
      else if charsetType = ''hex'' then ''0123456789abcdef''
      else ''abcdefghijklmnopqrstuvwxyzABCDEFGHIJKLMNOPQRSTUVWXYZ0123456789'')"

text \<open>
  The loop \<open>for i := range result\<close> of \<open>RandomStringGenerator.Generate\<close>: \<open>rnd i\<close> is the
  read of the random source in iteration \<open>i\<close>.
\<close>

fun RandomString_loop :: "string \<Rightarrow> (nat \<Rightarrow> draw) \<Rightarrow> nat list \<Rightarrow> string \<Rightarrow> string result" where
  "RandomString_loop charset rnd [] result = Ok result"
| "RandomString_loop charset rnd (i # rest) result =
     (case rand_Int (rnd i) (int (length charset)) of
        Panic m \<Rightarrow> Panic m
      | Err e \<Rightarrow> Err (''failed to generate random string: '' @ e)
      | Ok num \<Rightarrow> RandomString_loop charset rnd rest (result[i := charset ! nat num]))"

text \<open>
  \<open>make([]byte, n)\<close> panics for a negative \<open>n\<close> and for \<open>n\<close> above the allocation
  limit of the runtime (\<open>2^48\<close> bytes on 64-bit Linux), and otherwise yields \<open>n\<close> zero
  bytes. Running out of memory below that limit is not modelled.
\<close>

definition RandomStringGenerator_Generate :: "go_int \<Rightarrow> string \<Rightarrow> (nat \<Rightarrow> draw) \<Rightarrow> string result" where
  "RandomStringGenerator_Generate Length Charset rnd =
     (let charset = getCharset Charset in
      if sint Length < 0 \<or> 2 ^ 48 < sint Length
      then Panic ''runtime error: makeslice: len out of range''
      else let n = nat (sint Length) in
        RandomString_loop charset rnd [0..<n] (replicate n (CHR 0x00)))"

text \<open>
  Generators behind the \<open>Generator\<close> interface. The values they produce (\<open>any\<close>) are
  nil, booleans, integers and strings. The generator kinds \<open>formattedInt\<close>, \<open>template\<close>,
  \<open>object\<close>, \<open>array\<close> and \<open>reference\<close> are not needed by the properties below and are
  not modelled. A choice generator built from the configuration carries its weights as
  the real numbers they denote, and \<open>Generate\<close> evaluates it with \<open>exact_ops\<close>.
\<close>

datatype any = NilVal | BoolVal bool | IntVal go_int | StringVal string

datatype Generator =
    StaticGenerator any
  | RandomIntGenerator go_int go_int
  | ChoiceGenerator "any list" "float64 list"
  | RandomStringGenerator go_int string

fun map_result :: "('a \<Rightarrow> 'b) \<Rightarrow> 'a result \<Rightarrow> 'b result" where
  "map_result f (Ok v) = Ok (f v)"
| "map_result f (Err e) = Err e"
| "map_result f (Panic m) = Panic m"

fun Generate :: "Generator \<Rightarrow> (nat \<Rightarrow> draw) \<Rightarrow> any result" where
  "Generate (StaticGenerator v) rnd = Ok v"
| "Generate (RandomIntGenerator Min' Max') rnd =
     map_result IntVal (RandomIntGenerator_Generate Min' Max' (rnd 0))"
| "Generate (ChoiceGenerator Values Weights) rnd =
     ChoiceGenerator_Generate exact_ops Values Weights (rnd 0)"
| "Generate (RandomStringGenerator Length Charset) rnd =
     map_result StringVal (RandomStringGenerator_Generate Length Charset rnd)"

section \<open>Strings (packages strings, strconv, fmt)\<close>

text \<open>
  \<open>strings.TrimSuffix\<close> removes one occurrence of the suffix, if the string ends with it.
\<close>

definition HasSuffix :: "string \<Rightarrow> string \<Rightarrow> bool" where
  "HasSuffix s suffix' \<longleftrightarrow>
     length suffix' \<le> length s \<and> drop (length s - length suffix') s = suffix'"

definition TrimSuffix :: "string \<Rightarrow> string \<Rightarrow> string" where
  "TrimSuffix s suffix' = (if HasSuffix s suffix' then take (length s - length suffix') s else s)"

text \<open>
  \<open>strings.ReplaceAll\<close> replaces the non-overlapping occurrences of \<open>old\<close> from left to
  right. The program only calls it with a placeholder \<open>{name}\<close>, which is never empty;
  for an empty \<open>old\<close> (where Go inserts \<open>new\<close> around every character) the model
  leaves the string as it is.
\<close>

fun ReplaceAll :: "string \<Rightarrow> string \<Rightarrow> string \<Rightarrow> string" where
  "ReplaceAll [] old new = []"
| "ReplaceAll (c # cs) old new =
     (if old \<noteq> [] \<and> take (length old) (c # cs) = old
      then new @ ReplaceAll (drop (length old) (c # cs)) old new
      else c # ReplaceAll cs old new)"

function decimal :: "nat \<Rightarrow> string" where
  "decimal n =
     (if n < 10 then [''0123456789'' ! n]
      else decimal (n div 10) @ [''0123456789'' ! (n mod 10)])"
  by pat_completeness auto
termination
  by (relation "measure id") auto

definition Itoa :: "int \<Rightarrow> string" where
  "Itoa i = (if i < 0 then ''-'' @ decimal (nat (- i)) else decimal (nat i))"

text \<open>\<open>fmt.Sprintf("%v", value)\<close> on the values generators produce.\<close>

fun Sprintf_v :: "any \<Rightarrow> string" where
  "Sprintf_v NilVal = ''<nil>''"
| "Sprintf_v (BoolVal b) = (if b then ''true'' else ''false'')"
| "Sprintf_v (IntVal i) = Itoa (sint i)"
| "Sprintf_v (StringVal s) = s"

section \<open>Configuration (package config)\<close>

text \<open>
  A parameter definition as \<open>GetParameterGenerator\<close> sees it after YAML decoding: a bare
  string (a static generator), a definition from which \<open>createGeneratorWithConfig\<close>
  builds the generator \<open>g\<close>, or a definition it rejects with the error \<open>e\<close>. The
  decoding of untyped YAML maps itself is not modelled.
\<close>

datatype ParamDef = StringDef string | GeneratorDef Generator | InvalidDef string

fun GetParameterGenerator :: "ParamDef \<Rightarrow> Generator result" where
  "GetParameterGenerator (StringDef str) = Ok (StaticGenerator (StringVal str))"
| "GetParameterGenerator (GeneratorDef g) = Ok g"
| "GetParameterGenerator (InvalidDef e) = Err e"

record ExecutionConfig =
  Mode :: string
  DurationSeconds :: go_int
  RequestTimeoutMs :: go_int
  RequestsPerSecond :: go_int

text \<open>
  Go maps with string keys are association lists with distinct keys; the order of the
  list has no meaning for lookups. For the parameter maps of an endpoint the list order
  stands for the order in which the \<open>range\<close> loop of the call at hand visits the map.
  The field \<open>Method\<close> of \<open>EndpointConfig\<close> is \<open>Method'\<close> here, apart from the field
  \<open>Method\<close> of \<open>MetricDetail\<close>.
\<close>

record EndpointConfig =
  Path :: string
  Method' :: string
  Headers :: "(string \<times> string) list"
  PathParameters :: "(string \<times> ParamDef) list"
  QueryParameters :: "(string \<times> ParamDef) list"
  BodyParameters :: "ParamDef option"

definition zero_EndpointConfig :: EndpointConfig where
  "zero_EndpointConfig =
     \<lparr>Path = [], Method' = [], Headers = [], PathParameters = [], QueryParameters = [],
      BodyParameters = None\<rparr>"

record EndpointSelectionConfig =
  Strategy :: string
  Weights :: "(string \<times> float64) list"

record Config =
  BaseUrls :: "string list"
  Execution :: ExecutionConfig
  Endpoints :: "(string \<times> EndpointConfig) list"
  EndpointSelection :: EndpointSelectionConfig

section \<open>Target selection (package runner)\<close>

record Runner =
  endpointIdx :: uint64
  urlIdx :: uint64

definition NewRunner :: Runner where
  "NewRunner = \<lparr>endpointIdx = 0, urlIdx = 0\<rparr>"

text \<open>
  What one call of \<open>selectEndpoint\<close> takes from its environment: the order in which
  \<open>for name := range r.cfg.Endpoints\<close> yields the keys in this call (Go leaves the
  iteration order of a map unspecified, and it differs from one loop to the next), and
  the read of the random source.
\<close>

record select_env =
  range_order :: "string list"
  sel_draw :: draw

definition is_range_order :: "Config \<Rightarrow> string list \<Rightarrow> bool" where
  "is_range_order cfg names \<longleftrightarrow> distinct names \<and> set names = set (map fst (Endpoints cfg))"

text \<open>
  \<open>names[idx % uint64(len(names))]\<close>: the remainder panics for an empty slice
  (integer division by zero).
\<close>

definition roundRobin_pick :: "string list \<Rightarrow> uint64 \<Rightarrow> string result" where
  "roundRobin_pick names idx =
     (if length names = 0 then Panic ''runtime error: integer divide by zero''
      else index names (unat idx mod length names))"

text \<open>The fallback \<open>selected := names[r.endpointIdx % ...]; r.endpointIdx++\<close>.\<close>

definition roundRobin_select :: "Runner \<Rightarrow> string list \<Rightarrow> string result \<times> Runner" where
  "roundRobin_select r names =
     (case roundRobin_pick names (endpointIdx r) of
        Ok selected \<Rightarrow> (Ok selected, r\<lparr>endpointIdx := endpointIdx r + 1\<rparr>)
      | other \<Rightarrow> (other, r))"

text \<open>
  The weighted selection of an endpoint. Its weights are read as the real numbers they
  denote and summed without rounding, as by \<open>exact_ops\<close>; the properties below are about
  the round-robin strategy and do not evaluate it.
\<close>

definition weight_of :: "Config \<Rightarrow> string \<Rightarrow> float64 option" where
  "weight_of cfg name = map_of (Weights (EndpointSelection cfg)) name"

fun weighted_name_walk ::
  "Config \<Rightarrow> string list \<Rightarrow> float64 \<Rightarrow> float64 \<Rightarrow> string list \<Rightarrow> string result" where
  "weighted_name_walk cfg names target cumulative [] = index names (length names - 1)"
| "weighted_name_walk cfg names target cumulative (name # rest) =
     (case weight_of cfg name of
        Some weight \<Rightarrow>
          (let cumulative' = cumulative + weight in
           if target \<le> cumulative' then Ok name
           else weighted_name_walk cfg names target cumulative' rest)
      | None \<Rightarrow> weighted_name_walk cfg names target cumulative rest)"

definition selectWeightedEndpoint ::
  "Config \<Rightarrow> Runner \<Rightarrow> string list \<Rightarrow> draw \<Rightarrow> string result \<times> Runner" where
  "selectWeightedEndpoint cfg r names d =
     (if length (Weights (EndpointSelection cfg)) = 0 then roundRobin_select r names
      else let totalWeight =
                 foldl (\<lambda>total name. case weight_of cfg name of
                                        Some weight \<Rightarrow> total + weight | None \<Rightarrow> total)
                       0 names in
        if totalWeight = 0 then roundRobin_select r names
        else case rand_Int d (sint (float64_to_int64 (totalWeight * 1000))) of
            Panic m \<Rightarrow> (Panic m, r)
          | Err e \<Rightarrow> roundRobin_select r names
          | Ok num \<Rightarrow> (weighted_name_walk cfg names (of_int num / 1000) 0 names, r))"

definition selectRandomEndpoint ::
  "Runner \<Rightarrow> string list \<Rightarrow> draw \<Rightarrow> string result \<times> Runner" where
  "selectRandomEndpoint r names d =
     (case rand_Int d (int (length names)) of
        Panic m \<Rightarrow> (Panic m, r)
      | Err e \<Rightarrow> roundRobin_select r names
      | Ok num \<Rightarrow> (index names (nat num), r))"

definition selectEndpoint ::
  "Config \<Rightarrow> Runner \<Rightarrow> select_env \<Rightarrow> (string \<times> EndpointConfig) result \<times> Runner" where
  "selectEndpoint cfg r env =
     (let endpointNames = range_order env;
          (selected, r') =
            (if Strategy (EndpointSelection cfg) = ''weighted''
             then selectWeightedEndpoint cfg r endpointNames (sel_draw env)
             else if Strategy (EndpointSelection cfg) = ''random''
             then selectRandomEndpoint r endpointNames (sel_draw env)
             else roundRobin_select r endpointNames)
      in (map_result (\<lambda>selectedName.
            (selectedName,
             case map_of (Endpoints cfg) selectedName of
               Some endpoint \<Rightarrow> endpoint | None \<Rightarrow> zero_EndpointConfig)) selected,
          r'))"

definition selectBaseURL :: "Config \<Rightarrow> Runner \<Rightarrow> string result \<times> Runner" where
  "selectBaseURL cfg r =
     (case roundRobin_pick (BaseUrls cfg) (urlIdx r) of
        Ok selected \<Rightarrow> (Ok selected, r\<lparr>urlIdx := urlIdx r + 1\<rparr>)
      | other \<Rightarrow> (other, r))"

text \<open>Sequential calls of \<open>selectEndpoint\<close>, one environment per call; the names selected.\<close>

fun selectEndpoint_calls :: "Config \<Rightarrow> Runner \<Rightarrow> select_env list \<Rightarrow> string result list" where
  "selectEndpoint_calls cfg r [] = []"
| "selectEndpoint_calls cfg r (env # envs) =
     (case selectEndpoint cfg r env of
        (selected, r') \<Rightarrow> map_result fst selected # selectEndpoint_calls cfg r' envs)"

text \<open>Sequential calls of \<open>selectBaseURL\<close>.\<close>

fun selectBaseURL_calls :: "Config \<Rightarrow> Runner \<Rightarrow> nat \<Rightarrow> string result list" where
  "selectBaseURL_calls cfg r 0 = []"
| "selectBaseURL_calls cfg r (Suc n) =
     (case selectBaseURL cfg r of (selected, r') \<Rightarrow> selected # selectBaseURL_calls cfg r' n)"

section \<open>Metrics collector (package metrics)\<close>

record MetricDetail =
  URL :: string
  Method :: string
  StatusCode :: go_int
  Duration :: Duration
  IsError :: bool
  ErrorMsg :: string
  Timestamp :: int

text \<open>
  A Go map value is either \<open>nil\<close> (\<open>None\<close>) or a map made by \<open>make\<close> (\<open>Some m\<close>).
  Reading a missing key yields the zero value, so \<open>m[k]++\<close> stores \<open>1\<close> for a new key.
  Assigning into a nil map panics in Go; \<open>GetResults\<close> only increments maps it has
  made itself (lemma \<open>GetResults_maps_made\<close> below), so the \<open>None\<close> equation of
  \<open>map_incr\<close> is never reached by it.
\<close>

type_synonym ('k, 'v) go_map = "('k \<rightharpoonup> 'v) option"

fun map_incr :: "('k, 64 word) go_map \<Rightarrow> 'k \<Rightarrow> ('k, 64 word) go_map" where
  "map_incr None k = None"
| "map_incr (Some m) k = Some (m(k \<mapsto> (case m k of None \<Rightarrow> 0 | Some v \<Rightarrow> v) + 1))"

record Collector =
  allRequests :: "MetricDetail list"

definition NewCollector :: Collector where
  "NewCollector = \<lparr>allRequests = []\<rparr>"

text \<open>\<open>RecordRequest\<close> reads the clock for the timestamp; the reading is the argument \<open>now\<close>.\<close>

definition RecordRequest ::
  "Collector \<Rightarrow> string \<Rightarrow> string \<Rightarrow> go_int \<Rightarrow> Duration \<Rightarrow> bool \<Rightarrow> string \<Rightarrow> int \<Rightarrow> Collector" where
  "RecordRequest c url method statusCode duration isError errorMsg now =
     c\<lparr>allRequests := allRequests c @
        [\<lparr>URL = url, Method = method, StatusCode = statusCode, Duration = duration,
          IsError = isError, ErrorMsg = errorMsg, Timestamp = now\<rparr>]\<rparr>"

definition AppendDetail :: "Collector \<Rightarrow> MetricDetail \<Rightarrow> Collector" where
  "AppendDetail c detail = c\<lparr>allRequests := allRequests c @ [detail]\<rparr>"

record AggregatedResults =
  TotalRequests :: int64
  SuccessfulRequests :: int64
  FailedRequests :: int64
  TotalDuration :: Duration
  AvgDuration :: Duration
  MinDuration :: Duration
  MaxDuration :: Duration
  StatusCodesCount :: "(go_int, int64) go_map"
  ErrorDetails :: "(string, go_int) go_map"

text \<open>The zero value of the struct: every number 0, both maps nil.\<close>

definition zero_AggregatedResults :: AggregatedResults where
  "zero_AggregatedResults =
     \<lparr>TotalRequests = 0, SuccessfulRequests = 0, FailedRequests = 0, TotalDuration = 0,
      AvgDuration = 0, MinDuration = 0, MaxDuration = 0,
      StatusCodesCount = None, ErrorDetails = None\<rparr>"

text \<open>One iteration of the \<open>for _, r := range c.allRequests\<close> loop of \<open>GetResults\<close>.\<close>

definition GetResults_step :: "AggregatedResults \<Rightarrow> MetricDetail \<Rightarrow> AggregatedResults" where
  "GetResults_step res0 r =
     (let res1 = res0\<lparr>TotalRequests := TotalRequests res0 + 1\<rparr>;
          res2 = res1\<lparr>TotalDuration := TotalDuration res1 + Duration r\<rparr>;
          res3 = (if IsError r \<or> 400 \<le>s StatusCode r
                  then (let res' = res2\<lparr>FailedRequests := FailedRequests res2 + 1\<rparr>
                        in if ErrorMsg r \<noteq> []
                           then res'\<lparr>ErrorDetails := map_incr (ErrorDetails res') (ErrorMsg r)\<rparr>
                           else res')
                  else res2\<lparr>SuccessfulRequests := SuccessfulRequests res2 + 1\<rparr>);
          res4 = res3\<lparr>StatusCodesCount := map_incr (StatusCodesCount res3) (StatusCode r)\<rparr>;
          res5 = (if Duration r <s MinDuration res4
                  then res4\<lparr>MinDuration := Duration r\<rparr> else res4);
          res6 = (if MaxDuration res5 <s Duration r
                  then res5\<lparr>MaxDuration := Duration r\<rparr> else res5)
      in res6)"

text \<open>The result before the loop: both maps made, \<open>MinDuration\<close> set to the first duration.\<close>

definition GetResults_init :: "MetricDetail \<Rightarrow> AggregatedResults" where
  "GetResults_init first =
     (let res0 = zero_AggregatedResults\<lparr>StatusCodesCount := Some Map.empty\<rparr>;
          res1 = res0\<lparr>ErrorDetails := Some Map.empty\<rparr>
      in res1\<lparr>MinDuration := Duration first\<rparr>)"

text \<open>The code after the loop: the average, or the reset of \<open>MinDuration\<close>.\<close>

definition GetResults_finish :: "AggregatedResults \<Rightarrow> AggregatedResults" where
  "GetResults_finish res =
     (if 0 <s TotalRequests res
      then res\<lparr>AvgDuration := int64_div (TotalDuration res) (TotalRequests res)\<rparr>
      else res\<lparr>MinDuration := 0\<rparr>)"

definition GetResults :: "Collector \<Rightarrow> AggregatedResults" where
  "GetResults c =
     (case allRequests c of
        [] \<Rightarrow> zero_AggregatedResults\<lparr>StatusCodesCount := Some Map.empty,
                                      ErrorDetails := Some Map.empty\<rparr>
      | first # _ \<Rightarrow>
          GetResults_finish (foldl GetResults_step (GetResults_init first) (allRequests c)))"

text \<open>Ingesting a finite sequence of records through the single-writer path.\<close>

definition ingest :: "MetricDetail list \<Rightarrow> Collector" where
  "ingest rs = foldl AppendDetail NewCollector rs"

section \<open>Request executor (package runner)\<close>

text \<open>
  \<open>http.Client.Do\<close> of the standard library returns either a response or an error of
  type \<open>*url.Error\<close>, whose text is \<open>Op + " " + quoted URL + ": " + text of the wrapped
  error\<close>. The three parts are the arguments of \<open>url_Error\<close>.
\<close>

datatype url_Error = url_Error string string string

fun url_Error_Error :: "url_Error \<Rightarrow> string" where
  "url_Error_Error (url_Error op' quotedURL err') = op' @ '' '' @ quotedURL @ '': '' @ err'"

text \<open>
  What one call of \<open>makeRequest\<close> takes from its environment: the reads of the random
  source by the generator of each path parameter, of each query parameter and of the
  body; the outcomes of the standard library calls \<open>url.Parse\<close> (an error, if any),
  \<open>u.String()\<close> after the query values have been set, \<open>json.Marshal\<close> (error or bytes),
  \<open>http.NewRequest\<close> (an error, if any) and \<open>client.Do\<close> (a \<open>url.Error\<close> or the status
  code of the response); the elapsed time and the clock.
\<close>

record request_env =
  path_rnd :: "string \<Rightarrow> nat \<Rightarrow> draw"
  query_rnd :: "string \<Rightarrow> nat \<Rightarrow> draw"
  body_rnd :: "nat \<Rightarrow> draw"
  url_Parse_error :: "string \<Rightarrow> string option"
  url_with_query :: "string \<Rightarrow> (string \<times> string) list \<Rightarrow> string"
  json_Marshal :: "any \<Rightarrow> string + string"
  NewRequest_error :: "string \<Rightarrow> string \<Rightarrow> string option"
  client_Do :: "url_Error + go_int"
  elapsed :: Duration
  now :: int

text \<open>The loop of \<open>buildURL\<close> over the path parameters.\<close>

fun buildURL_loop ::
  "string \<Rightarrow> (string \<times> ParamDef) list \<Rightarrow> (string \<Rightarrow> nat \<Rightarrow> draw) \<Rightarrow> string result" where
  "buildURL_loop fullPath [] rnd = Ok fullPath"
| "buildURL_loop fullPath ((paramName, paramDef) # rest) rnd =
     (let placeholder = ''{'' @ paramName @ ''}'' in
      case GetParameterGenerator paramDef of
        Panic m \<Rightarrow> Panic m
      | Err e \<Rightarrow>
          Err (''failed to get path parameter generator for '' @ paramName @ '': '' @ e)
      | Ok gen \<Rightarrow>
          (case Generate gen (rnd paramName) of
             Panic m \<Rightarrow> Panic m
           | Err e \<Rightarrow> Err (''failed to generate path parameter '' @ paramName @ '': '' @ e)
           | Ok value \<Rightarrow>
               buildURL_loop (ReplaceAll fullPath placeholder (Sprintf_v value)) rest rnd))"

definition buildURL ::
  "string \<Rightarrow> string \<Rightarrow> (string \<times> ParamDef) list \<Rightarrow> (string \<Rightarrow> nat \<Rightarrow> draw) \<Rightarrow> string result" where
  "buildURL baseURL path pathParams rnd =
     (case buildURL_loop path pathParams rnd of
        Panic m \<Rightarrow> Panic m
      | Err e \<Rightarrow> Err e
      | Ok fullPath \<Rightarrow> Ok (TrimSuffix baseURL ''/'' @ fullPath))"

text \<open>The loop of \<open>addQueryParams\<close>; \<open>query\<close> collects the calls of \<open>query.Set\<close>.\<close>

fun addQueryParams_loop ::
  "(string \<times> string) list \<Rightarrow> (string \<times> ParamDef) list \<Rightarrow> (string \<Rightarrow> nat \<Rightarrow> draw)
     \<Rightarrow> (string \<times> string) list result" where
  "addQueryParams_loop query [] rnd = Ok query"
| "addQueryParams_loop query ((paramName, paramDef) # rest) rnd =
     (case GetParameterGenerator paramDef of
        Panic m \<Rightarrow> Panic m
      | Err e \<Rightarrow>
          Err (''failed to get query parameter generator for '' @ paramName @ '': '' @ e)
      | Ok gen \<Rightarrow>
          (case Generate gen (rnd paramName) of
             Panic m \<Rightarrow> Panic m
           | Err e \<Rightarrow> Err (''failed to generate query parameter '' @ paramName @ '': '' @ e)
           | Ok value \<Rightarrow>
               addQueryParams_loop (query @ [(paramName, Sprintf_v value)]) rest rnd))"

definition addQueryParams ::
  "string \<Rightarrow> (string \<times> ParamDef) list \<Rightarrow> request_env \<Rightarrow> string result" where
  "addQueryParams fullURL queryParams env =
     (case url_Parse_error env fullURL of
        Some e \<Rightarrow> Err (''failed to parse URL: '' @ e)
      | None \<Rightarrow>
          (case addQueryParams_loop [] queryParams (query_rnd env) of
             Panic m \<Rightarrow> Panic m
           | Err e \<Rightarrow> Err e
           | Ok query \<Rightarrow> Ok (url_with_query env fullURL query)))"

definition generateRequestBody :: "ParamDef \<Rightarrow> request_env \<Rightarrow> string result" where
  "generateRequestBody bodyParams env =
     (case GetParameterGenerator bodyParams of
        Panic m \<Rightarrow> Panic m
      | Err e \<Rightarrow> Err (''failed to get body parameter generator: '' @ e)
      | Ok gen \<Rightarrow>
          (case Generate gen (body_rnd env) of
             Panic m \<Rightarrow> Panic m
           | Err e \<Rightarrow> Err (''failed to generate body: '' @ e)
           | Ok value \<Rightarrow>
               (case json_Marshal env value of Inl e \<Rightarrow> Err e | Inr bytes \<Rightarrow> Ok bytes)))"

definition createErrorMetric :: "string \<Rightarrow> string \<Rightarrow> string \<Rightarrow> request_env \<Rightarrow> MetricDetail" where
  "createErrorMetric url method errorMsg env =
     \<lparr>URL = url, Method = method, StatusCode = 0, Duration = elapsed env, IsError = True,
      ErrorMsg = errorMsg, Timestamp = now env\<rparr>"

text \<open>
  \<open>makeRequest\<close>. On a failure of \<open>addQueryParams\<close> the assignment
  \<open>fullURL, err = r.addQueryParams(...)\<close> has already set \<open>fullURL\<close> to the empty string.
  The headers only change the request sent; its outcome is \<open>client_Do\<close>.
\<close>

definition makeRequest ::
  "string \<Rightarrow> string \<Rightarrow> EndpointConfig \<Rightarrow> request_env \<Rightarrow> MetricDetail result" where
  "makeRequest baseURL endpointName endpoint env =
     (case buildURL baseURL (Path endpoint) (PathParameters endpoint) (path_rnd env) of
        Panic m \<Rightarrow> Panic m
      | Err e \<Rightarrow>
          Ok (createErrorMetric (baseURL @ Path endpoint) (Method' endpoint)
                (''URL building failed: '' @ e) env)
      | Ok fullURL0 \<Rightarrow>
         (case (if length (QueryParameters endpoint) > 0
                then addQueryParams fullURL0 (QueryParameters endpoint) env
                else Ok fullURL0) of
            Panic m \<Rightarrow> Panic m
          | Err e \<Rightarrow>
              Ok (createErrorMetric [] (Method' endpoint) (''Query params failed: '' @ e) env)
          | Ok fullURL \<Rightarrow>
             (case (case BodyParameters endpoint of
                      None \<Rightarrow> Ok None
                    | Some bodyParams \<Rightarrow> map_result Some (generateRequestBody bodyParams env)) of
                Panic m \<Rightarrow> Panic m
              | Err e \<Rightarrow>
                  Ok (createErrorMetric fullURL (Method' endpoint)
                        (''Body generation failed: '' @ e) env)
              | Ok body \<Rightarrow>
                 (case NewRequest_error env (Method' endpoint) fullURL of
                    Some e \<Rightarrow>
                      Ok (createErrorMetric fullURL (Method' endpoint)
                            (''Request creation failed: '' @ e) env)
                  | None \<Rightarrow>
                     (case client_Do env of
                        Inl err \<Rightarrow>
                          Ok (createErrorMetric fullURL (Method' endpoint)
                                (url_Error_Error err) env)
                      | Inr statusCode \<Rightarrow>
                          Ok \<lparr>URL = fullURL, Method = Method' endpoint,
                              StatusCode = statusCode, Duration = elapsed env,
                              IsError = False, ErrorMsg = [], Timestamp = now env\<rparr>)))))"

section \<open>Load scheduler (package runner)\<close>

text \<open>
  The state a run acts on: the runner's counters, the collector, and the number of
  request goroutines started so far (\<open>wg.Add(1); go func() {...}\<close>).
\<close>

record RunState =
  runner :: Runner
  collector :: Collector
  spawned :: nat

record task_env =
  select :: select_env
  request :: request_env

text \<open>
  The body of one request goroutine: select the endpoint and the base URL, make the
  request, hand the record to the collector goroutine, which appends it. Goroutines run
  concurrently in the program; the model runs each one when it is started, which is one
  of the possible schedules.
\<close>

definition request_task :: "Config \<Rightarrow> RunState \<Rightarrow> task_env \<Rightarrow> RunState result" where
  "request_task cfg st env =
     (case selectEndpoint cfg (runner st) (select env) of
        (Panic m, r1) \<Rightarrow> Panic m
      | (Err e, r1) \<Rightarrow> Err e
      | (Ok (endpointName, endpoint), r1) \<Rightarrow>
         (case selectBaseURL cfg r1 of
            (Panic m, r2) \<Rightarrow> Panic m
          | (Err e, r2) \<Rightarrow> Err e
          | (Ok baseURL, r2) \<Rightarrow>
             (case makeRequest baseURL endpointName endpoint (request env) of
                Panic m \<Rightarrow> Panic m
              | Err e \<Rightarrow> Err e
              | Ok detail \<Rightarrow>
                  Ok (st\<lparr>runner := r2, collector := AppendDetail (collector st) detail\<rparr>))))"

text \<open>
  What the control loop of \<open>runFixedRPSMode\<close> observes in one iteration: the ticker
  fires before the deadline (a request goroutine is started, with its environment), the
  ticker fires at or after the deadline, or the \<open>time.After\<close> timer fires. In the last
  two cases, and when the loop condition \<open>time.Since(startTime) < totalDuration\<close> is
  false (the end of the list), the loop ends.
\<close>

datatype loop_event = Tick task_env | TickAfterDeadline | DurationReached

fun control_loop :: "Config \<Rightarrow> loop_event list \<Rightarrow> RunState \<Rightarrow> RunState result" where
  "control_loop cfg [] st = Ok st"
| "control_loop cfg (Tick env # events) st =
     (case request_task cfg (st\<lparr>spawned := spawned st + 1\<rparr>) env of
        Ok st' \<Rightarrow> control_loop cfg events st'
      | other \<Rightarrow> other)"
| "control_loop cfg (TickAfterDeadline # events) st = Ok st"
| "control_loop cfg (DurationReached # events) st = Ok st"

text \<open>
  \<open>runFixedRPSMode\<close> and \<open>Run\<close> return an error or the (empty) \<open>BenchmarkResult\<close>,
  together with the state they leave; their log lines are not modelled. \<open>time.NewTicker\<close> panics for a non-positive
  interval, which \<open>time.Second / time.Duration(rps)\<close> is for more than \<open>10^9\<close> requests
  per second.
\<close>

definition runFixedRPSMode :: "Config \<Rightarrow> loop_event list \<Rightarrow> RunState \<Rightarrow> unit result \<times> RunState" where
  "runFixedRPSMode cfg events st =
     (if RequestsPerSecond (Execution cfg) \<le>s 0
      then (Err ''requestsPerSecond must be positive for fixed mode'', st)
      else if length (Endpoints cfg) = 0 then (Err ''no endpoints configured'', st)
      else if length (BaseUrls cfg) = 0 then (Err ''no base URLs configured'', st)
      else if int64_div 1000000000 (RequestsPerSecond (Execution cfg)) \<le>s 0
      then (Panic ''non-positive interval for NewTicker'', st)
      else case control_loop cfg events st of
          Ok st' \<Rightarrow> (Ok (), st')
        | Err e \<Rightarrow> (Err e, st)
        | Panic m \<Rightarrow> (Panic m, st))"

definition Run :: "Config \<Rightarrow> loop_event list \<Rightarrow> RunState \<Rightarrow> unit result \<times> RunState" where
  "Run cfg events st =
     (if Mode (Execution cfg) = ''fixed'' then runFixedRPSMode cfg events st
      else if Mode (Execution cfg) = ''ramp''
      then (Err ''ramp up mode not yet implemented'', st)
      else (Err (''unknown mode: '' @ Mode (Execution cfg)), st))"

definition NewRunState :: RunState where
  "NewRunState = \<lparr>runner = NewRunner, collector = NewCollector, spawned = 0\<rparr>"

section \<open>Properties in the words of the specification\<close>

text \<open>
  The failure test of the loop, as a predicate on one record: \<open>IsError\<close> is set, or the
  status code is at least 400 (signed comparison on \<open>int\<close>).
\<close>

definition is_failure :: "MetricDetail \<Rightarrow> bool" where
  "is_failure r \<longleftrightarrow> IsError r \<or> 400 \<le> sint (StatusCode r)"

text \<open>The exact (unbounded) sum of the signed durations of a list of records.\<close>

definition duration_sum :: "MetricDetail list \<Rightarrow> int" where
  "duration_sum rs = sum_list (map (\<lambda>r. sint (Duration r)) rs)"

text \<open>
  The weighted draw in the words of the specification: \<open>W\<close> is the sum of the weights,
  the cumulative weight of a value is the sum of the weights up to it (summed in order,
  from \<open>0.0\<close>), and the value drawn for \<open>x\<close> is the first one whose cumulative weight is
  at least \<open>x\<close>, or the last value when no cumulative weight reaches \<open>x\<close>. The bound of
  the integer draw is \<open>int64(W * 1000)\<close>.
\<close>

definition total_weight :: "'f float64_ops \<Rightarrow> 'f list \<Rightarrow> 'f" where
  "total_weight ops ws = foldl (f_add ops) (f_zero ops) ws"

definition cumulative_weight :: "'f float64_ops \<Rightarrow> 'f list \<Rightarrow> nat \<Rightarrow> 'f" where
  "cumulative_weight ops ws i = total_weight ops (take (Suc i) ws)"

definition first_reaching_index :: "'f float64_ops \<Rightarrow> 'f list \<Rightarrow> 'f \<Rightarrow> nat option" where
  "first_reaching_index ops ws x =
     find (\<lambda>i. f_le ops x (cumulative_weight ops ws i)) [0..<length ws]"

definition spec_weighted_choice :: "'f float64_ops \<Rightarrow> 'a list \<Rightarrow> 'f list \<Rightarrow> 'f \<Rightarrow> 'a" where
  "spec_weighted_choice ops vs ws x =
     (case first_reaching_index ops ws x of Some i \<Rightarrow> vs ! i | None \<Rightarrow> last vs)"

definition draw_bound :: "'f float64_ops \<Rightarrow> 'f list \<Rightarrow> int" where
  "draw_bound ops ws = sint (int64_of_times_1000 ops (total_weight ops ws))"

text \<open>
  The join the specification describes: the base URL without its trailing slashes, one
  \<open>/\<close>, and the path without its leading slashes.
\<close>

definition one_slash_join :: "string \<Rightarrow> string \<Rightarrow> string" where
  "one_slash_join baseURL path =
     rev (dropWhile (\<lambda>c. c = CHR ''/'') (rev baseURL)) @ ''/''
       @ dropWhile (\<lambda>c. c = CHR ''/'') path"

section \<open>Sample data\<close>

text \<open>Three sample records: a 200 response, a transport failure and a 404 response.\<close>

definition ok_record :: MetricDetail where
  "ok_record = \<lparr>URL = ''http://h/a'', Method = ''GET'', StatusCode = 200, Duration = 30,
                 IsError = False, ErrorMsg = [], Timestamp = 1\<rparr>"

definition failed_record :: MetricDetail where
  "failed_record = \<lparr>URL = ''http://h/a'', Method = ''GET'', StatusCode = 0, Duration = 10,
                     IsError = True, ErrorMsg = ''timeout'', Timestamp = 2\<rparr>"

definition http_error_record :: MetricDetail where
  "http_error_record = \<lparr>URL = ''http://h/a'', Method = ''GET'', StatusCode = 404, Duration = 50,
                         IsError = False, ErrorMsg = [], Timestamp = 3\<rparr>"

text \<open>A record whose duration is the largest \<open>time.Duration\<close>, \<open>math.MaxInt64\<close> nanoseconds.\<close>

definition max_duration_record :: MetricDetail where
  "max_duration_record = \<lparr>URL = ''http://h/a'', Method = ''GET'', StatusCode = 200,
     Duration = 0x7FFFFFFFFFFFFFFF, IsError = False, ErrorMsg = [], Timestamp = 1\<rparr>"

text \<open>A sample configuration: three endpoints \<open>a\<close>, \<open>b\<close>, \<open>c\<close>, round-robin selection.\<close>

definition get_endpoint :: EndpointConfig where
  "get_endpoint = \<lparr>Path = ''/items'', Method' = ''GET'', Headers = [], PathParameters = [],
                    QueryParameters = [], BodyParameters = None\<rparr>"

definition abc_config :: Config where
  "abc_config =
     \<lparr>BaseUrls = [''http://u1'', ''http://u2'', ''http://u3''],
      Execution = \<lparr>Mode = ''fixed'', DurationSeconds = 1, RequestTimeoutMs = 5000,
                    RequestsPerSecond = 10\<rparr>,
      Endpoints = [(''a'', get_endpoint), (''b'', get_endpoint), (''c'', get_endpoint)],
      EndpointSelection = \<lparr>Strategy = ''roundRobin'', Weights = []\<rparr>\<rparr>"

definition order_env :: "string list \<Rightarrow> select_env" where
  "order_env names = \<lparr>range_order = names, sel_draw = Entropy 0\<rparr>"

text \<open>Sample environments, endpoints and configurations for the evaluations below.\<close>

definition zero_entropy :: "string \<Rightarrow> nat \<Rightarrow> draw" where
  "zero_entropy name i = Entropy 0"

definition ok_env :: request_env where
  "ok_env = \<lparr>path_rnd = zero_entropy, query_rnd = zero_entropy, body_rnd = zero_entropy [],
             url_Parse_error = (\<lambda>u. None), url_with_query = (\<lambda>u q. u),
             json_Marshal = (\<lambda>v. Inr (Sprintf_v v)), NewRequest_error = (\<lambda>m u. None),
             client_Do = Inr 200, elapsed = 1000, now = 1\<rparr>"

definition user_endpoint :: EndpointConfig where
  "user_endpoint = \<lparr>Path = ''/users/{id}'', Method' = ''GET'', Headers = [],
       PathParameters = [(''id'', StringDef ''7'')], QueryParameters = [],
       BodyParameters = None\<rparr>"

definition bad_endpoint :: EndpointConfig where
  "bad_endpoint = \<lparr>Path = ''/users/{id}'', Method' = ''GET'', Headers = [],
       PathParameters = [(''id'', GeneratorDef (RandomStringGenerator (- 1) ''alphanumeric''))],
       QueryParameters = [], BodyParameters = None\<rparr>"

definition sample_task :: task_env where
  "sample_task = \<lparr>select = order_env [''b'', ''c'', ''a''], request = ok_env\<rparr>"

definition zero_rps_config :: Config where
  "zero_rps_config = abc_config\<lparr>Execution := (Execution abc_config)\<lparr>RequestsPerSecond := 0\<rparr>\<rparr>"

definition burst_config :: Config where
  "burst_config = abc_config\<lparr>Execution := (Execution abc_config)\<lparr>Mode := ''burst''\<rparr>\<rparr>"

section \<open>Metrics collector: counters\<close>

lemma allRequests_foldl_AppendDetail:
  "allRequests (foldl AppendDetail c rs) = allRequests c @ rs"
  by (induction rs arbitrary: c) (simp_all add: AppendDetail_def)

lemma allRequests_ingest: "allRequests (ingest rs) = rs"
  by (simp add: ingest_def allRequests_foldl_AppendDetail NewCollector_def)

text \<open>Both ingestion paths append one record; \<open>RecordRequest\<close> builds it from its arguments.\<close>

lemma RecordRequest_AppendDetail:
  "RecordRequest c url method statusCode duration isError errorMsg now' =
     AppendDetail c \<lparr>URL = url, Method = method, StatusCode = statusCode, Duration = duration,
                      IsError = isError, ErrorMsg = errorMsg, Timestamp = now'\<rparr>"
  by (simp add: RecordRequest_def AppendDetail_def)

lemma step_TotalRequests:
  "TotalRequests (GetResults_step res r) = TotalRequests res + 1"
  by (simp add: GetResults_step_def Let_def)

lemma step_FailedRequests:
  "FailedRequests (GetResults_step res r) =
     FailedRequests res + (if is_failure r then 1 else 0)"
  by (simp add: GetResults_step_def Let_def is_failure_def word_sle_eq)

lemma step_SuccessfulRequests:
  "SuccessfulRequests (GetResults_step res r) =
     SuccessfulRequests res + (if is_failure r then 0 else 1)"
  by (simp add: GetResults_step_def Let_def is_failure_def word_sle_eq)

lemma foldl_TotalRequests:
  "TotalRequests (foldl GetResults_step res rs) = TotalRequests res + of_nat (length rs)"
  by (induction rs arbitrary: res) (simp_all add: step_TotalRequests)

lemma foldl_FailedRequests:
  "FailedRequests (foldl GetResults_step res rs) =
     FailedRequests res + of_nat (length (filter is_failure rs))"
  by (induction rs arbitrary: res) (simp_all add: step_FailedRequests)

lemma foldl_SuccessfulRequests:
  "SuccessfulRequests (foldl GetResults_step res rs) =
     SuccessfulRequests res + of_nat (length (filter (\<lambda>r. \<not> is_failure r) rs))"
  by (induction rs arbitrary: res) (simp_all add: step_SuccessfulRequests)

lemma sint_of_nat_64: "n < 2 ^ 63 \<Longrightarrow> sint (of_nat n :: 64 word) = int n"
  by (simp add: signed_of_nat signed_take_bit_int_eq_self)

lemma GetResults_finish_counts:
  "TotalRequests (GetResults_finish res) = TotalRequests res"
  "FailedRequests (GetResults_finish res) = FailedRequests res"
  "SuccessfulRequests (GetResults_finish res) = SuccessfulRequests res"
  by (simp_all add: GetResults_finish_def)

lemma GetResults_init_counts:
  "TotalRequests (GetResults_init r) = 0"
  "FailedRequests (GetResults_init r) = 0"
  "SuccessfulRequests (GetResults_init r) = 0"
  by (simp_all add: GetResults_init_def zero_AggregatedResults_def)

lemma GetResults_counts:
  "TotalRequests (GetResults (ingest rs)) = of_nat (length rs)"
  "FailedRequests (GetResults (ingest rs)) = of_nat (length (filter is_failure rs))"
  "SuccessfulRequests (GetResults (ingest rs)) =
     of_nat (length (filter (\<lambda>r. \<not> is_failure r) rs))"
  by (cases rs; simp add: GetResults_def allRequests_ingest zero_AggregatedResults_def
      GetResults_finish_counts GetResults_init_counts
      foldl_TotalRequests foldl_FailedRequests foldl_SuccessfulRequests del: foldl_Cons)+

lemma length_filter_split:
  "length (filter P xs) + length (filter (\<lambda>x. \<not> P x) xs) = length xs"
  by (induction xs) simp_all

text \<open>The maps of a snapshot are never nil: the loop only increments maps that were made.\<close>

lemma step_maps_made:
  assumes "StatusCodesCount res \<noteq> None" and "ErrorDetails res \<noteq> None"
  shows "StatusCodesCount (GetResults_step res r) \<noteq> None"
    and "ErrorDetails (GetResults_step res r) \<noteq> None"
  using assms by (auto simp: GetResults_step_def Let_def)

lemma foldl_maps_made:
  assumes "StatusCodesCount res \<noteq> None" and "ErrorDetails res \<noteq> None"
  shows "StatusCodesCount (foldl GetResults_step res rs) \<noteq> None
   \<and> ErrorDetails (foldl GetResults_step res rs) \<noteq> None"
  using assms
proof (induction rs arbitrary: res)
  case Nil
  then show ?case by simp
next
  case (Cons r rs)
  from Cons.IH [OF step_maps_made [OF Cons.prems, of r]] show ?case by simp
qed

lemma GetResults_maps_made:
  "StatusCodesCount (GetResults c) \<noteq> None \<and> ErrorDetails (GetResults c) \<noteq> None"
proof (cases "allRequests c")
  case Nil
  then show ?thesis by (simp add: GetResults_def)
next
  case (Cons first rest)
  have i: "StatusCodesCount (GetResults_init first) \<noteq> None"
    "ErrorDetails (GetResults_init first) \<noteq> None"
    by (simp_all add: GetResults_init_def)
  have f: "StatusCodesCount (GetResults_finish res) = StatusCodesCount res"
    "ErrorDetails (GetResults_finish res) = ErrorDetails res" for res
    by (simp_all add: GetResults_finish_def)
  have "GetResults c = GetResults_finish (foldl GetResults_step (GetResults_init first) (allRequests c))"
    by (simp add: GetResults_def Cons)
  then show ?thesis
    using foldl_maps_made [OF i, of "allRequests c"] by (simp add: f)
qed

text \<open>
  Claim C1. For every finite sequence of records ingested by the collector, the snapshot
  of \<open>GetResults\<close> has \<open>SuccessfulRequests + FailedRequests = TotalRequests\<close>,
  \<open>TotalRequests\<close> is the number of records and \<open>FailedRequests\<close> is the number of
  records with \<open>IsError\<close> set or \<open>StatusCode \<ge> 400\<close>. The three equations hold in
  \<open>int64\<close> arithmetic for every list; read as signed integers they hold for every list
  shorter than \<open>2^63\<close>, which is every Go slice (its length is an \<open>int\<close>).
\<close>

theorem GetResults_counts_consistent:
  "SuccessfulRequests (GetResults (ingest rs)) + FailedRequests (GetResults (ingest rs))
     = TotalRequests (GetResults (ingest rs))
   \<and> TotalRequests (GetResults (ingest rs)) = of_nat (length rs)
   \<and> FailedRequests (GetResults (ingest rs)) = of_nat (length (filter is_failure rs))
   \<and> (length rs < 2 ^ 63 \<longrightarrow>
        sint (SuccessfulRequests (GetResults (ingest rs)))
          + sint (FailedRequests (GetResults (ingest rs)))
          = sint (TotalRequests (GetResults (ingest rs)))
      \<and> sint (TotalRequests (GetResults (ingest rs))) = int (length rs)
      \<and> sint (FailedRequests (GetResults (ingest rs))) = int (length (filter is_failure rs)))"
proof -
  let ?f = "length (filter is_failure rs)"
  let ?s = "length (filter (\<lambda>r. \<not> is_failure r) rs)"
  have split: "?s + ?f = length rs"
    using length_filter_split [of is_failure rs] by simp
  have words: "(of_nat ?s :: 64 word) + of_nat ?f = of_nat (length rs)"
    using split by (metis of_nat_add)
  have ints: "sint (of_nat ?s :: 64 word) + sint (of_nat ?f :: 64 word)
        = sint (of_nat (length rs) :: 64 word)
      \<and> sint (of_nat (length rs) :: 64 word) = int (length rs)
      \<and> sint (of_nat ?f :: 64 word) = int ?f" if len: "length rs < 2 ^ 63"
  proof -
    have lf: "?f < 2 ^ 63"
      using len length_filter_le [of is_failure rs] by linarith
    have ls: "?s < 2 ^ 63"
      using len length_filter_le [of "\<lambda>r. \<not> is_failure r" rs] by linarith
    show ?thesis
      using split sint_of_nat_64 [OF len] sint_of_nat_64 [OF lf] sint_of_nat_64 [OF ls]
      by linarith
  qed
  show ?thesis
    unfolding GetResults_counts using words ints by blast
qed

theorem GetResults_counts_consistent_witness:
  "length [ok_record, failed_record, http_error_record] < 2 ^ 63
   \<and> sint (TotalRequests (GetResults (ingest [ok_record, failed_record, http_error_record]))) = 3
   \<and> sint (FailedRequests (GetResults (ingest [ok_record, failed_record, http_error_record]))) = 2
   \<and> sint (SuccessfulRequests (GetResults (ingest [ok_record, failed_record, http_error_record])))
       + sint (FailedRequests (GetResults (ingest [ok_record, failed_record, http_error_record])))
       = sint (TotalRequests (GetResults (ingest [ok_record, failed_record, http_error_record])))"
  using GetResults_counts_consistent [of "[ok_record, failed_record, http_error_record]"]
  by (simp add: is_failure_def ok_record_def failed_record_def http_error_record_def)

section \<open>Metrics collector: durations\<close>

lemma step_TotalDuration:
  "TotalDuration (GetResults_step res r) = TotalDuration res + Duration r"
  by (simp add: GetResults_step_def Let_def)

lemma step_MinDuration:
  "MinDuration (GetResults_step res r) =
     (if Duration r <s MinDuration res then Duration r else MinDuration res)"
  by (simp add: GetResults_step_def Let_def)

lemma step_MaxDuration:
  "MaxDuration (GetResults_step res r) =
     (if MaxDuration res <s Duration r then Duration r else MaxDuration res)"
  by (simp add: GetResults_step_def Let_def)

lemma foldl_TotalDuration:
  "TotalDuration (foldl GetResults_step res rs) = TotalDuration res + sum_list (map Duration rs)"
  by (induction rs arbitrary: res) (simp_all add: step_TotalDuration add.assoc)

lemma foldl_MinDuration_le:
  "sint (MinDuration (foldl GetResults_step res rs)) \<le> sint (MinDuration res)
   \<and> (\<forall>r \<in> set rs. sint (MinDuration (foldl GetResults_step res rs)) \<le> sint (Duration r))"
proof (induction rs arbitrary: res)
  case Nil
  show ?case by simp
next
  case (Cons r rs)
  have "sint (MinDuration (GetResults_step res r)) \<le> sint (MinDuration res)"
    and "sint (MinDuration (GetResults_step res r)) \<le> sint (Duration r)"
    by (simp_all add: step_MinDuration word_sless_alt)
  with Cons [of "GetResults_step res r"] show ?case
    by (auto intro: order_trans)
qed

lemma foldl_MaxDuration_ge:
  "sint (MaxDuration res) \<le> sint (MaxDuration (foldl GetResults_step res rs))
   \<and> (\<forall>r \<in> set rs. sint (Duration r) \<le> sint (MaxDuration (foldl GetResults_step res rs)))"
proof (induction rs arbitrary: res)
  case Nil
  show ?case by simp
next
  case (Cons r rs)
  have "sint (MaxDuration res) \<le> sint (MaxDuration (GetResults_step res r))"
    and "sint (Duration r) \<le> sint (MaxDuration (GetResults_step res r))"
    by (simp_all add: step_MaxDuration word_sless_alt)
  with Cons [of "GetResults_step res r"] show ?case
    by (auto intro: order_trans)
qed

lemma word_of_int_sum_sint:
  "(word_of_int (sum_list (map sint ws)) :: 64 word) = sum_list ws"
  by (induction ws) simp_all

lemma duration_sum_word:
  "(word_of_int (duration_sum rs) :: 64 word) = sum_list (map Duration rs)"
  unfolding duration_sum_def by (induction rs) simp_all

lemma sint_word_of_int_64:
  "- (2 ^ 63) \<le> k \<Longrightarrow> k < 2 ^ 63 \<Longrightarrow> sint (word_of_int k :: 64 word) = k"
  by (simp add: sint_sbintrunc' signed_take_bit_int_eq_self)

lemma duration_sum_lower:
  "\<forall>r \<in> set rs. m \<le> sint (Duration r) \<Longrightarrow> m * int (length rs) \<le> duration_sum rs"
  unfolding duration_sum_def by (induction rs) (auto simp: algebra_simps)

lemma duration_sum_upper:
  "\<forall>r \<in> set rs. sint (Duration r) \<le> m \<Longrightarrow> duration_sum rs \<le> m * int (length rs)"
  unfolding duration_sum_def by (induction rs) (auto simp: algebra_simps)

lemma div_between:
  fixes S n lo hi :: int
  assumes n: "0 < n" and lo: "lo * n \<le> S" and hi: "S \<le> hi * n"
  shows "lo \<le> S div n" and "S div n \<le> hi"
proof -
  have "lo * n div n \<le> S div n" by (rule zdiv_mono1 [OF lo n])
  then show "lo \<le> S div n" using n by simp
  have "S div n \<le> hi * n div n" by (rule zdiv_mono1 [OF hi n])
  then show "S div n \<le> hi" using n by simp
qed

lemma sdiv_between:
  fixes S n lo hi :: int
  assumes n: "0 < n" and lo: "lo * n \<le> S" and hi: "S \<le> hi * n"
  shows "lo \<le> S sdiv n \<and> S sdiv n \<le> hi"
proof (cases "0 \<le> S")
  case True
  then have eq: "S sdiv n = S div n"
    using n by (simp add: signed_divide_int_def sgn_if)
  show ?thesis using eq div_between [OF n lo hi] by simp
next
  case False
  then have eq: "S sdiv n = - ((- S) div n)"
    using n by (simp add: signed_divide_int_def sgn_if)
  have a: "(- hi) * n \<le> - S" using hi by simp
  have b: "- S \<le> (- lo) * n" using lo by simp
  show ?thesis using eq div_between [OF n a b] by simp
qed

lemma foldl_init_TotalRequests:
  "TotalRequests (foldl GetResults_step (GetResults_init r) xs) = of_nat (length xs)"
  by (simp add: foldl_TotalRequests GetResults_init_counts)

lemma foldl_init_TotalDuration:
  "TotalDuration (foldl GetResults_step (GetResults_init r) xs) = word_of_int (duration_sum xs)"
  by (simp add: foldl_TotalDuration duration_sum_word GetResults_init_def
      zero_AggregatedResults_def)

lemma GetResults_ingest_finish:
  "rs \<noteq> [] \<Longrightarrow> GetResults (ingest rs) =
     GetResults_finish (foldl GetResults_step (GetResults_init (hd rs)) rs)"
  by (cases rs) (simp_all add: GetResults_def allRequests_ingest del: foldl_Cons)

lemma GetResults_nonempty:
  assumes len: "length rs < 2 ^ 63" and ne: "rs \<noteq> []"
  shows "GetResults (ingest rs) =
    (foldl GetResults_step (GetResults_init (hd rs)) rs)
      \<lparr>AvgDuration := int64_div (word_of_int (duration_sum rs)) (of_nat (length rs))\<rparr>"
proof -
  let ?F = "foldl GetResults_step (GetResults_init (hd rs)) rs"
  have "sint (TotalRequests ?F) = int (length rs)"
    unfolding foldl_init_TotalRequests by (rule sint_of_nat_64 [OF len])
  then have pos: "0 <s TotalRequests ?F"
    using ne by (simp add: word_sless_alt)
  have "GetResults (ingest rs) = GetResults_finish ?F"
    by (rule GetResults_ingest_finish [OF ne])
  also have "\<dots> = ?F\<lparr>AvgDuration := int64_div (TotalDuration ?F) (TotalRequests ?F)\<rparr>"
    using pos by (simp add: GetResults_finish_def)
  finally show ?thesis
    unfolding foldl_init_TotalRequests foldl_init_TotalDuration .
qed

text \<open>
  Claim C2, as amended. On an empty record set \<open>MinDuration\<close>, \<open>AvgDuration\<close> and
  \<open>MaxDuration\<close> are zero and both histogram maps are made (not nil) and empty. When
  \<open>TotalRequests > 0\<close> and the exact sum of the durations fits in an \<open>int64\<close>,
  \<open>AvgDuration\<close> is \<open>TotalDuration / TotalRequests\<close> in Go's truncating division and
  \<open>MinDuration \<le> AvgDuration \<le> MaxDuration\<close>.
\<close>

theorem GetResults_min_avg_max:
  "(rs = [] \<longrightarrow>
      MinDuration (GetResults (ingest rs)) = 0 \<and> AvgDuration (GetResults (ingest rs)) = 0
    \<and> MaxDuration (GetResults (ingest rs)) = 0
    \<and> StatusCodesCount (GetResults (ingest rs)) = Some Map.empty
    \<and> ErrorDetails (GetResults (ingest rs)) = Some Map.empty)
 \<and> (length rs < 2 ^ 63 \<and> 0 < sint (TotalRequests (GetResults (ingest rs)))
     \<and> - (2 ^ 63) \<le> duration_sum rs \<and> duration_sum rs < 2 ^ 63 \<longrightarrow>
      AvgDuration (GetResults (ingest rs)) =
        int64_div (TotalDuration (GetResults (ingest rs))) (TotalRequests (GetResults (ingest rs)))
    \<and> sint (MinDuration (GetResults (ingest rs))) \<le> sint (AvgDuration (GetResults (ingest rs)))
    \<and> sint (AvgDuration (GetResults (ingest rs))) \<le> sint (MaxDuration (GetResults (ingest rs))))"
proof (intro conjI impI)
  assume "rs = []"
  then show "MinDuration (GetResults (ingest rs)) = 0" "AvgDuration (GetResults (ingest rs)) = 0"
    "MaxDuration (GetResults (ingest rs)) = 0"
    "StatusCodesCount (GetResults (ingest rs)) = Some Map.empty"
    "ErrorDetails (GetResults (ingest rs)) = Some Map.empty"
    by (simp_all add: GetResults_def allRequests_ingest zero_AggregatedResults_def)
next
  assume h: "length rs < 2 ^ 63 \<and> 0 < sint (TotalRequests (GetResults (ingest rs)))
     \<and> - (2 ^ 63) \<le> duration_sum rs \<and> duration_sum rs < 2 ^ 63"
  then have len: "length rs < 2 ^ 63" and lo: "- (2 ^ 63) \<le> duration_sum rs"
    and hi: "duration_sum rs < 2 ^ 63" by simp_all
  have "sint (TotalRequests (GetResults (ingest rs))) = int (length rs)"
    using GetResults_counts(1) [of rs] sint_of_nat_64 [OF len] by simp
  with h have ne: "rs \<noteq> []" by auto
  let ?F = "foldl GetResults_step (GetResults_init (hd rs)) rs"
  let ?S = "duration_sum rs" and ?n = "int (length rs)"
  note eq = GetResults_nonempty [OF len ne]
  have tot: "TotalRequests (GetResults (ingest rs)) = of_nat (length rs)"
    by (rule GetResults_counts)
  have dur: "TotalDuration ?F = word_of_int ?S"
    by (rule foldl_init_TotalDuration)
  show "AvgDuration (GetResults (ingest rs)) =
        int64_div (TotalDuration (GetResults (ingest rs))) (TotalRequests (GetResults (ingest rs)))"
    unfolding tot unfolding eq by (simp add: dur)
  have n: "0 < ?n" using ne by simp
  have m: "sint (MinDuration ?F) * ?n \<le> ?S"
    using foldl_MinDuration_le [of "GetResults_init (hd rs)" rs]
    by (intro duration_sum_lower) blast
  have M: "?S \<le> sint (MaxDuration ?F) * ?n"
    using foldl_MaxDuration_ge [of "GetResults_init (hd rs)" rs]
    by (intro duration_sum_upper) blast
  note btw = sdiv_between [OF n m M]
  have rng: "- (2 ^ 63) \<le> ?S sdiv ?n" "?S sdiv ?n < 2 ^ 63"
    using btw sint_ge [of "MinDuration ?F"] sint_lt [of "MaxDuration ?F"] by simp_all
  have avg: "sint (AvgDuration (GetResults (ingest rs))) = ?S sdiv ?n"
    unfolding eq
    by (simp add: int64_div_def sint_word_of_int_64 [OF lo hi] sint_of_nat_64 [OF len]
        sint_word_of_int_64 [OF rng])
  show "sint (MinDuration (GetResults (ingest rs))) \<le> sint (AvgDuration (GetResults (ingest rs)))"
    unfolding avg using btw unfolding eq by simp
  show "sint (AvgDuration (GetResults (ingest rs))) \<le> sint (MaxDuration (GetResults (ingest rs)))"
    unfolding avg using btw unfolding eq by simp
qed


lemma max_duration_avg:
  "AvgDuration (GetResults (ingest [max_duration_record, max_duration_record])) = - 1"
proof -
  have d: "Duration max_duration_record = 0x7FFFFFFFFFFFFFFF"
    by (simp add: max_duration_record_def)
  have s: "duration_sum [max_duration_record, max_duration_record] = 18446744073709551614"
    by (simp add: duration_sum_def d)
  have "int64_div (word_of_int 18446744073709551614) 2 = - 1"
    by (simp add: int64_div_def signed_divide_int_def)
  then show ?thesis
    by (simp add: GetResults_nonempty s del: foldl_Cons foldl_Nil)
qed

lemma max_duration_min:
  "MinDuration (GetResults (ingest [max_duration_record, max_duration_record]))
     = 0x7FFFFFFFFFFFFFFF"
proof -
  have d: "Duration max_duration_record = 0x7FFFFFFFFFFFFFFF"
    by (simp add: max_duration_record_def)
  have i: "MinDuration (GetResults_init max_duration_record) = 0x7FFFFFFFFFFFFFFF"
    by (simp add: GetResults_init_def d)
  show ?thesis
    by (simp add: GetResults_nonempty step_MinDuration i d)
qed

text \<open>
  Claim C2 as stated fails when the sum of the durations wraps around: two records of
  \<open>math.MaxInt64\<close> nanoseconds each give \<open>TotalDuration = -2\<close> and \<open>AvgDuration = -1\<close>,
  below \<open>MinDuration\<close>.
\<close>

theorem GetResults_min_avg_max_counterexample:
  "0 < sint (TotalRequests (GetResults (ingest [max_duration_record, max_duration_record])))
   \<and> \<not> sint (MinDuration (GetResults (ingest [max_duration_record, max_duration_record])))
       \<le> sint (AvgDuration (GetResults (ingest [max_duration_record, max_duration_record])))"
  by (simp add: max_duration_avg max_duration_min GetResults_counts)


theorem GetResults_min_avg_max_witness:
  "length [ok_record, failed_record, http_error_record] < 2 ^ 63
   \<and> - (2 ^ 63) \<le> duration_sum [ok_record, failed_record, http_error_record]
   \<and> duration_sum [ok_record, failed_record, http_error_record] < 2 ^ 63
   \<and> 0 < sint (TotalRequests (GetResults (ingest [ok_record, failed_record, http_error_record])))
   \<and> sint (MinDuration (GetResults (ingest [ok_record, failed_record, http_error_record])))
       \<le> sint (AvgDuration (GetResults (ingest [ok_record, failed_record, http_error_record])))
   \<and> sint (AvgDuration (GetResults (ingest [ok_record, failed_record, http_error_record])))
       \<le> sint (MaxDuration (GetResults (ingest [ok_record, failed_record, http_error_record])))
   \<and> MinDuration (GetResults (ingest [])) = 0 \<and> AvgDuration (GetResults (ingest [])) = 0
   \<and> MaxDuration (GetResults (ingest [])) = 0
   \<and> StatusCodesCount (GetResults (ingest [])) = Some Map.empty
   \<and> ErrorDetails (GetResults (ingest [])) = Some Map.empty"
proof -
  let ?rs = "[ok_record, failed_record, http_error_record]"
  have h1: "length ?rs < 2 ^ 63" by simp
  have h2: "- (2 ^ 63) \<le> duration_sum ?rs \<and> duration_sum ?rs < 2 ^ 63"
    by (simp add: duration_sum_def ok_record_def failed_record_def http_error_record_def)
  have h3: "0 < sint (TotalRequests (GetResults (ingest ?rs)))"
    by (simp add: GetResults_counts)
  show ?thesis
    using GetResults_min_avg_max [of ?rs] GetResults_min_avg_max [of "[]"] h1 h2 h3 by blast
qed

section \<open>Generators\<close>

lemma sint_range_64: "- (2 ^ 63) \<le> sint (w :: 64 word)" "sint (w :: 64 word) < 2 ^ 63"
  using sint_ge [of w] sint_lt [of w] by simp_all

lemma sint_sub_add1:
  "- (2 ^ 63) \<le> sint a - sint b + 1 \<Longrightarrow> sint a - sint b + 1 < 2 ^ 63 \<Longrightarrow>
     sint (a - b + 1 :: 64 word) = sint a - sint b + 1"
proof -
  assume r: "- (2 ^ 63) \<le> sint a - sint b + 1" "sint a - sint b + 1 < 2 ^ 63"
  have "a - b + 1 = word_of_int (sint a - sint b + 1)" by simp
  then show ?thesis using sint_word_of_int_64 [OF r] by simp
qed

lemma sint_add_of_int:
  "- (2 ^ 63) \<le> sint a + n \<Longrightarrow> sint a + n < 2 ^ 63 \<Longrightarrow>
     sint (a + word_of_int n :: 64 word) = sint a + n"
proof -
  assume r: "- (2 ^ 63) \<le> sint a + n" "sint a + n < 2 ^ 63"
  have "a + word_of_int n = word_of_int (sint a + n)" by simp
  then show ?thesis using sint_word_of_int_64 [OF r] by simp
qed

text \<open>
  Claim C4, as amended. With \<open>min \<ge> max\<close> the generator returns \<open>min\<close>. With
  \<open>min < max\<close> and \<open>max - min + 1\<close> representable as an \<open>int\<close>, it returns the wrapped
  error when the random source fails, and otherwise an integer in \<open>[min, max]\<close>.
\<close>

theorem RandomInt_Generate_range:
  "(sint Max' \<le> sint Min' \<longrightarrow> RandomIntGenerator_Generate Min' Max' d = Ok Min')
 \<and> (sint Min' < sint Max' \<and> sint Max' - sint Min' < 2 ^ 63 - 1 \<longrightarrow>
      (case d of
         ReadError e \<Rightarrow>
           RandomIntGenerator_Generate Min' Max' d = Err (''failed to generate random int: '' @ e)
       | Entropy k \<Rightarrow>
           (\<exists>v. RandomIntGenerator_Generate Min' Max' d = Ok v
                \<and> sint Min' \<le> sint v \<and> sint v \<le> sint Max')))"
proof (intro conjI impI)
  assume "sint Max' \<le> sint Min'"
  then show "RandomIntGenerator_Generate Min' Max' d = Ok Min'"
    by (simp add: RandomIntGenerator_Generate_def word_sle_eq)
next
  assume h: "sint Min' < sint Max' \<and> sint Max' - sint Min' < 2 ^ 63 - 1"
  let ?R = "sint Max' - sint Min' + 1"
  have R: "sint (Max' - Min' + 1) = ?R"
    using h by (intro sint_sub_add1) simp_all
  have Rpos: "0 < ?R" using h by simp
  have Rne: "?R \<noteq> 1" using h by simp
  have nle: "\<not> Max' \<le>s Min'" using h by (simp add: word_sle_eq)
  show "case d of
         ReadError e \<Rightarrow>
           RandomIntGenerator_Generate Min' Max' d = Err (''failed to generate random int: '' @ e)
       | Entropy k \<Rightarrow>
           (\<exists>v. RandomIntGenerator_Generate Min' Max' d = Ok v
                \<and> sint Min' \<le> sint v \<and> sint v \<le> sint Max')"
  proof (cases d)
    case (ReadError e)
    then show ?thesis
      using nle Rpos Rne by (simp add: RandomIntGenerator_Generate_def Let_def R rand_Int_def)
  next
    case (Entropy k)
    let ?num = "int k mod ?R"
    have num: "0 \<le> ?num" "?num < ?R"
      using pos_mod_sign [OF Rpos] pos_mod_bound [OF Rpos] by blast+
    have gen: "RandomIntGenerator_Generate Min' Max' d = Ok (Min' + word_of_int ?num)"
      using nle Rpos Rne Entropy
      by (simp add: RandomIntGenerator_Generate_def Let_def R rand_Int_def)
    have b: "sint Min' \<le> sint Min' + ?num" "sint Min' + ?num \<le> sint Max'"
      using num by linarith+
    have "sint (Min' + word_of_int ?num) = sint Min' + ?num"
      using b sint_range_64 [of Min'] sint_range_64 [of Max']
      by (intro sint_add_of_int) linarith+
    with gen b have "\<exists>v. RandomIntGenerator_Generate Min' Max' d = Ok v
        \<and> sint Min' \<le> sint v \<and> sint v \<le> sint Max'"
      by metis
    then show ?thesis using Entropy by simp
  qed
qed

theorem RandomInt_Generate_range_witness:
  "sint (1 :: go_int) < sint (6 :: go_int) \<and> sint (6 :: go_int) - sint (1 :: go_int) < 2 ^ 63 - 1
   \<and> (\<exists>v. RandomIntGenerator_Generate 1 6 (Entropy 7) = Ok v \<and> sint (1 :: go_int) \<le> sint v
          \<and> sint v \<le> sint (6 :: go_int))
   \<and> sint (3 :: go_int) \<le> sint (5 :: go_int)
   \<and> RandomIntGenerator_Generate 5 3 (Entropy 7) = Ok 5"
  using RandomInt_Generate_range [of 6 1 "Entropy 7"] RandomInt_Generate_range [of 3 5 "Entropy 7"]
  by simp

text \<open>
  Claim C4 as stated fails in two ways. Over the whole \<open>int\<close> range \<open>max - min + 1\<close>
  wraps around to \<open>0\<close> and \<open>rand.Int\<close> panics; and when the random source fails the
  generator returns an error, not an integer of the range.
\<close>

theorem RandomInt_Generate_range_counterexample:
  "RandomIntGenerator_Generate (- 0x8000000000000000) 0x7FFFFFFFFFFFFFFF (Entropy 0)
     = Panic ''crypto/rand: argument to Int is <= 0''
   \<and> RandomIntGenerator_Generate 1 6 (ReadError ''EOF'')
     = Err ''failed to generate random int: EOF''"
  by (simp add: RandomIntGenerator_Generate_def rand_Int_def word_sle_eq)

text \<open>
  Claim C10. A choice generator with a non-empty values list and a weights list of a
  different length ignores the weights, whatever the \<open>float64\<close> arithmetic: it behaves
  as the generator without weights, returning \<open>Values[n]\<close> for the number \<open>n\<close> drawn by
  \<open>rand.Int\<close> from \<open>[0, len(Values))\<close>. When the random source fails it returns the
  wrapped error, except for a single value, which \<open>rand.Int\<close> draws without reading.
\<close>

theorem Choice_Generate_mismatched_weights:
  "values \<noteq> [] \<and> length weights \<noteq> length values \<longrightarrow>
     ChoiceGenerator_Generate ops values weights d = ChoiceGenerator_Generate ops values [] d
   \<and> ChoiceGenerator_Generate ops values weights d =
       (case d of
          ReadError e \<Rightarrow>
            (if length values = 1 then Ok (values ! 0)
             else Err (''failed to generate choice: '' @ e))
        | Entropy k \<Rightarrow> Ok (values ! (k mod length values)))"
proof (intro impI)
  assume h: "values \<noteq> [] \<and> length weights \<noteq> length values"
  then have pos: "0 < length values" by simp
  have idx: "nat (int k mod int (length values)) = k mod length values" for k
    by (simp add: nat_mod_distrib)
  have lt: "k mod length values < length values" for k using pos by simp
  have one: "length values = 1 \<Longrightarrow> k mod length values = 0" for k by simp
  show "ChoiceGenerator_Generate ops values weights d = ChoiceGenerator_Generate ops values [] d
   \<and> ChoiceGenerator_Generate ops values weights d =
       (case d of
          ReadError e \<Rightarrow>
            (if length values = 1 then Ok (values ! 0)
             else Err (''failed to generate choice: '' @ e))
        | Entropy k \<Rightarrow> Ok (values ! (k mod length values)))"
    using h pos
    by (cases d) (simp_all add: ChoiceGenerator_Generate_def rand_Int_def index_def idx lt)
qed

theorem Choice_Generate_mismatched_weights_witness:
  "[''a'', ''b'', ''c''] \<noteq> [] \<and> length [1 / 2 :: float64] \<noteq> length [''a'', ''b'', ''c'']
   \<and> ChoiceGenerator_Generate exact_ops [''a'', ''b'', ''c''] [1 / 2] (Entropy 4)
       = ChoiceGenerator_Generate exact_ops [''a'', ''b'', ''c''] [] (Entropy 4)
   \<and> ChoiceGenerator_Generate exact_ops [''a'', ''b'', ''c''] [1 / 2] (Entropy 4) = Ok ''b''
   \<and> ChoiceGenerator_Generate exact_ops [''a'', ''b'', ''c''] [1 / 2] (ReadError ''EOF'')
       = Err ''failed to generate choice: EOF''
   \<and> [''a''] \<noteq> [] \<and> length [1 / 2, 1 / 2 :: float64] \<noteq> length [''a'']
   \<and> ChoiceGenerator_Generate exact_ops [''a''] [1 / 2, 1 / 2] (ReadError ''EOF'') = Ok ''a''"
proof -
  have h: "[''a'', ''b'', ''c''] \<noteq> [] \<and> length [1 / 2 :: float64] \<noteq> length [''a'', ''b'', ''c'']"
    "[''a''] \<noteq> [] \<and> length [1 / 2, 1 / 2 :: float64] \<noteq> length [''a'']"
    by simp_all
  have e: "(case Entropy 4 of
              ReadError e \<Rightarrow>
                (if length [''a'', ''b'', ''c''] = 1 then Ok ([''a'', ''b'', ''c''] ! 0)
                 else Err (''failed to generate choice: '' @ e))
            | Entropy k \<Rightarrow> Ok ([''a'', ''b'', ''c''] ! (k mod length [''a'', ''b'', ''c''])))
           = Ok ''b''"
    "(case ReadError ''EOF'' of
              ReadError e \<Rightarrow>
                (if length [''a'', ''b'', ''c''] = 1 then Ok ([''a'', ''b'', ''c''] ! 0)
                 else Err (''failed to generate choice: '' @ e))
            | Entropy k \<Rightarrow> Ok ([''a'', ''b'', ''c''] ! (k mod length [''a'', ''b'', ''c''])))
           = Err ''failed to generate choice: EOF''"
    "(case ReadError ''EOF'' of
              ReadError e \<Rightarrow>
                (if length [''a''] = 1 then Ok ([''a''] ! 0)
                 else Err (''failed to generate choice: '' @ e))
            | Entropy k \<Rightarrow> Ok ([''a''] ! (k mod length [''a''])))
           = Ok ''a''"
    by simp_all
  show ?thesis
    using Choice_Generate_mismatched_weights
        [of "[''a'', ''b'', ''c'']" "[1 / 2]" exact_ops "Entropy 4"]
      Choice_Generate_mismatched_weights
        [of "[''a'', ''b'', ''c'']" "[1 / 2]" exact_ops "ReadError ''EOF''"]
      Choice_Generate_mismatched_weights
        [of "[''a'']" "[1 / 2, 1 / 2]" exact_ops "ReadError ''EOF''"] h
    unfolding e by blast
qed

text \<open>
  The loop of the weighted draw returns the first value whose cumulative weight reaches
  the target, and the last value when none does. The running sum of the loop is the sum
  of the weights passed so far, in the arithmetic of \<open>ops\<close>.
\<close>

lemma weighted_walk_find:
  "weighted_walk ops vs x (total_weight ops pre) (length pre) rest =
     (case find (\<lambda>i. f_le ops x (cumulative_weight ops (pre @ rest) i))
             [length pre..<length (pre @ rest)] of
        Some i \<Rightarrow> index vs i
      | None \<Rightarrow> index vs (length vs - 1))"
proof (induction rest arbitrary: pre)
  case Nil
  show ?case by simp
next
  case (Cons w rest)
  have upt: "[length pre..<length (pre @ w # rest)]
      = length pre # [Suc (length pre)..<length (pre @ w # rest)]"
    by (rule upt_conv_Cons) simp
  have here: "cumulative_weight ops (pre @ w # rest) (length pre)
      = f_add ops (total_weight ops pre) w"
    by (simp add: cumulative_weight_def total_weight_def)
  have ih: "weighted_walk ops vs x (f_add ops (total_weight ops pre) w) (Suc (length pre)) rest =
     (case find (\<lambda>i. f_le ops x (cumulative_weight ops (pre @ w # rest) i))
             [Suc (length pre)..<length (pre @ w # rest)] of
        Some i \<Rightarrow> index vs i
      | None \<Rightarrow> index vs (length vs - 1))"
    using Cons [of "pre @ [w]"] by (simp add: total_weight_def del: upt_Suc)
  show ?case
    unfolding upt by (simp add: Let_def here ih del: upt_Suc)
qed

lemma find_upt_less: "find P [0..<n] = Some i \<Longrightarrow> i < n"
  by (auto simp: find_Some_iff)

lemma weighted_walk_spec:
  assumes len: "length vs = length ws" and ne: "vs \<noteq> []"
  shows "weighted_walk ops vs x (f_zero ops) 0 ws = Ok (spec_weighted_choice ops vs ws x)"
proof -
  have "weighted_walk ops vs x (f_zero ops) 0 ws =
     (case first_reaching_index ops ws x of
        Some i \<Rightarrow> index vs i | None \<Rightarrow> index vs (length vs - 1))"
    using weighted_walk_find [of ops vs x "[]" ws]
    by (simp add: first_reaching_index_def total_weight_def)
  also have "\<dots> = Ok (spec_weighted_choice ops vs ws x)"
  proof (cases "first_reaching_index ops ws x")
    case None
    then show ?thesis
      using ne by (simp add: spec_weighted_choice_def index_def last_conv_nth)
  next
    case (Some i)
    then have "i < length vs"
      using find_upt_less len by (simp add: first_reaching_index_def)
    then show ?thesis
      using Some by (simp add: spec_weighted_choice_def index_def)
  qed
  finally show ?thesis .
qed

lemma generateWeightedChoice_nonpositive:
  "vs \<noteq> [] \<Longrightarrow> f_le ops (total_weight ops ws) (f_zero ops) \<Longrightarrow>
     generateWeightedChoice ops vs ws d = Ok (vs ! 0)"
  by (simp add: generateWeightedChoice_def total_weight_def index_def)

text \<open>
  A weight sum that is not \<open><= 0\<close> and whose scaled conversion \<open>int64(W * 1000)\<close> is not
  positive makes the weighted draw panic, in every arithmetic.
\<close>

lemma generateWeightedChoice_nonpositive_bound_panics:
  "\<not> f_le ops (total_weight ops ws) (f_zero ops) \<Longrightarrow> draw_bound ops ws \<le> 0 \<Longrightarrow>
     generateWeightedChoice ops vs ws d = Panic ''crypto/rand: argument to Int is <= 0''"
  by (simp add: generateWeightedChoice_def total_weight_def draw_bound_def rand_Int_def)

lemma generateWeightedChoice_walk:
  assumes len: "length vs = length ws" and ne: "vs \<noteq> []"
    and pos: "\<not> f_le ops (total_weight ops ws) (f_zero ops)" and lo: "1 \<le> draw_bound ops ws"
  shows "generateWeightedChoice ops vs ws (ReadError e) =
       (if draw_bound ops ws = 1
        then Ok (spec_weighted_choice ops vs ws (div_1000_of_int64 ops 0))
        else Err (''failed to generate weighted choice: '' @ e))"
    and "generateWeightedChoice ops vs ws (Entropy k) =
       Ok (spec_weighted_choice ops vs ws (div_1000_of_int64 ops (int k mod draw_bound ops ws)))"
proof -
  have r: "rand_Int (ReadError e) (draw_bound ops ws) =
      (if draw_bound ops ws = 1 then Ok 0 else Err e)"
    using lo by (simp add: rand_Int_def)
  have k: "rand_Int (Entropy k) (draw_bound ops ws) = Ok (int k mod draw_bound ops ws)"
    using lo by (simp add: rand_Int_def)
  have g: "generateWeightedChoice ops vs ws d =
      (case rand_Int d (draw_bound ops ws) of
         Panic m \<Rightarrow> Panic m
       | Err e \<Rightarrow> Err (''failed to generate weighted choice: '' @ e)
       | Ok num \<Rightarrow> Ok (spec_weighted_choice ops vs ws (div_1000_of_int64 ops num)))" for d
    using pos
    by (simp add: generateWeightedChoice_def total_weight_def [symmetric]
        draw_bound_def [symmetric] weighted_walk_spec [OF len ne] split: result.split)
  show "generateWeightedChoice ops vs ws (ReadError e) =
       (if draw_bound ops ws = 1
        then Ok (spec_weighted_choice ops vs ws (div_1000_of_int64 ops 0))
        else Err (''failed to generate weighted choice: '' @ e))"
    unfolding g r by simp
  show "generateWeightedChoice ops vs ws (Entropy k) =
       Ok (spec_weighted_choice ops vs ws (div_1000_of_int64 ops (int k mod draw_bound ops ws)))"
    unfolding g k by simp
qed

text \<open>
  The draw is on a grid of 0.001. With the weights \<open>2^-11\<close> and \<open>2^-10\<close> the bound of
  \<open>rand.Int\<close> is \<open>int64(1.46484375) = 1\<close>, so \<open>x\<close> is 0 for every outcome of the random
  source, read or not, and the second value is never returned.
\<close>

lemma generateWeightedChoice_grid_example:
  "ChoiceGenerator_Generate exact_ops [''a'', ''b''] [1 / 2048, 1 / 1024] d = Ok ''a''"
  by (simp add: ChoiceGenerator_Generate_def generateWeightedChoice_def exact_ops_def
      float64_to_int64_def rand_Int_def index_def)

text \<open>
  Claim C5, as amended. For a non-empty values list and a weights list of the same
  length, in every \<open>float64\<close> arithmetic \<open>ops\<close>: if the sum \<open>W\<close> of the weights is
  \<open><= 0\<close>, \<open>Generate\<close> returns the first value. If \<open>W\<close> is not \<open><= 0\<close> and the bound
  \<open>B = int64(W * 1000)\<close> is at least 1, \<open>rand.Int\<close> draws an integer \<open>n\<close> from \<open>[0, B)\<close>
  (\<open>n = 0\<close> without a read when \<open>B = 1\<close>; the wrapped error when a read fails), and
  \<open>Generate\<close> returns, for \<open>x = float64(n) / 1000.0\<close>, the first value whose cumulative
  weight is at least \<open>x\<close>, or the last value when none is.
\<close>

theorem Choice_Generate_weighted:
  "vs \<noteq> [] \<and> length ws = length vs \<longrightarrow>
     (f_le ops (total_weight ops ws) (f_zero ops) \<longrightarrow>
        ChoiceGenerator_Generate ops vs ws d = Ok (vs ! 0))
   \<and> (\<not> f_le ops (total_weight ops ws) (f_zero ops) \<and> 1 \<le> draw_bound ops ws \<longrightarrow>
        (case d of
           ReadError e \<Rightarrow>
             ChoiceGenerator_Generate ops vs ws d =
               (if draw_bound ops ws = 1
                then Ok (spec_weighted_choice ops vs ws (div_1000_of_int64 ops 0))
                else Err (''failed to generate weighted choice: '' @ e))
         | Entropy k \<Rightarrow>
             0 \<le> int k mod draw_bound ops ws
           \<and> int k mod draw_bound ops ws < draw_bound ops ws
           \<and> ChoiceGenerator_Generate ops vs ws d =
                Ok (spec_weighted_choice ops vs ws
                      (div_1000_of_int64 ops (int k mod draw_bound ops ws)))))"
proof (intro impI conjI)
  assume h: "vs \<noteq> [] \<and> length ws = length vs"
  then have ne: "vs \<noteq> []" and len: "length vs = length ws" by simp_all
  have w: "ChoiceGenerator_Generate ops vs ws d = generateWeightedChoice ops vs ws d"
    using h by (simp add: ChoiceGenerator_Generate_def)
  {
    assume "f_le ops (total_weight ops ws) (f_zero ops)"
    then show "ChoiceGenerator_Generate ops vs ws d = Ok (vs ! 0)"
      unfolding w using ne by (rule generateWeightedChoice_nonpositive [rotated])
  }
  {
    assume r: "\<not> f_le ops (total_weight ops ws) (f_zero ops) \<and> 1 \<le> draw_bound ops ws"
    then have pos: "\<not> f_le ops (total_weight ops ws) (f_zero ops)"
      and lo: "1 \<le> draw_bound ops ws"
      by simp_all
    note g = generateWeightedChoice_walk [OF len ne pos lo]
    have bpos: "0 < draw_bound ops ws" using lo by simp
    have m: "0 \<le> int k mod draw_bound ops ws" "int k mod draw_bound ops ws < draw_bound ops ws"
      for k
      using pos_mod_sign [OF bpos] pos_mod_bound [OF bpos] by blast+
    show "case d of
           ReadError e \<Rightarrow>
             ChoiceGenerator_Generate ops vs ws d =
               (if draw_bound ops ws = 1
                then Ok (spec_weighted_choice ops vs ws (div_1000_of_int64 ops 0))
                else Err (''failed to generate weighted choice: '' @ e))
         | Entropy k \<Rightarrow>
             0 \<le> int k mod draw_bound ops ws
           \<and> int k mod draw_bound ops ws < draw_bound ops ws
           \<and> ChoiceGenerator_Generate ops vs ws d =
                Ok (spec_weighted_choice ops vs ws
                      (div_1000_of_int64 ops (int k mod draw_bound ops ws)))"
    proof (cases d)
      case (ReadError e)
      then show ?thesis unfolding w using g(1) by simp
    next
      case (Entropy k)
      then show ?thesis unfolding w using g(2) m [of k] by simp
    qed
  }
qed

text \<open>
  Evaluations in exact arithmetic, at weights and targets that \<open>float64\<close> represents
  exactly: the sums, the products by 1000 and the quotients by 1000 are the same
  numbers in \<open>float64\<close>.
\<close>

lemma exact_ops_simps:
  "f_zero exact_ops = 0"
  "f_add exact_ops x y = x + y"
  "f_le exact_ops x y = (x \<le> y)"
  "int64_of_times_1000 exact_ops x = float64_to_int64 (x * 1000)"
  "div_1000_of_int64 exact_ops n = of_int n / 1000"
  by (simp_all add: exact_ops_def)

lemma exact_total_weight_examples:
  "total_weight exact_ops [3 / 4, 1 / 4] = 1"
  "total_weight exact_ops [0, 0] = 0"
  "total_weight exact_ops [1 / 2048, 1 / 1024] = 3 / 2048"
  by (simp_all add: total_weight_def exact_ops_simps)

lemma exact_draw_bound_examples:
  "draw_bound exact_ops [3 / 4, 1 / 4] = 1000"
  "draw_bound exact_ops [1 / 2048, 1 / 1024] = 1"
  by (simp_all add: draw_bound_def exact_total_weight_examples exact_ops_simps
      float64_to_int64_def)

lemma spec_weighted_choice_examples:
  "spec_weighted_choice exact_ops [''a'', ''b''] [3 / 4, 1 / 4] (7 / 8) = ''b''"
  "spec_weighted_choice exact_ops [''a'', ''b''] [1 / 2048, 1 / 1024] 0 = ''a''"
  "spec_weighted_choice exact_ops [''a'', ''b''] [1 / 2048, 1 / 1024] (1 / 1024) = ''b''"
  by (simp_all add: spec_weighted_choice_def first_reaching_index_def cumulative_weight_def
      total_weight_def exact_ops_simps upt_conv_Cons)

theorem Choice_Generate_weighted_witness:
  "[''a'', ''b''] \<noteq> [] \<and> length [3 / 4, 1 / 4 :: float64] = length [''a'', ''b'']
   \<and> \<not> f_le exact_ops (total_weight exact_ops [3 / 4, 1 / 4]) (f_zero exact_ops)
   \<and> 1 \<le> draw_bound exact_ops [3 / 4, 1 / 4]
   \<and> ChoiceGenerator_Generate exact_ops [''a'', ''b''] [3 / 4, 1 / 4] (Entropy 875) = Ok ''b''
   \<and> ChoiceGenerator_Generate exact_ops [''a'', ''b''] [3 / 4, 1 / 4] (ReadError ''EOF'')
       = Err ''failed to generate weighted choice: EOF''
   \<and> f_le exact_ops (total_weight exact_ops [0, 0]) (f_zero exact_ops)
   \<and> ChoiceGenerator_Generate exact_ops [''a'', ''b''] [0, 0] (Entropy 875) = Ok ''a''
   \<and> \<not> f_le exact_ops (total_weight exact_ops [1 / 2048, 1 / 1024]) (f_zero exact_ops)
   \<and> 1 \<le> draw_bound exact_ops [1 / 2048, 1 / 1024]
   \<and> ChoiceGenerator_Generate exact_ops [''a'', ''b''] [1 / 2048, 1 / 1024] (ReadError ''EOF'')
       = Ok ''a''"
proof -
  have h: "[''a'', ''b''] \<noteq> [] \<and> length [3 / 4, 1 / 4 :: float64] = length [''a'', ''b'']"
    "[''a'', ''b''] \<noteq> [] \<and> length [0, 0 :: float64] = length [''a'', ''b'']"
    "[''a'', ''b''] \<noteq> [] \<and> length [1 / 2048, 1 / 1024 :: float64] = length [''a'', ''b'']"
    by simp_all
  have p: "\<not> f_le exact_ops (total_weight exact_ops [3 / 4, 1 / 4]) (f_zero exact_ops)"
    "f_le exact_ops (total_weight exact_ops [0, 0]) (f_zero exact_ops)"
    "\<not> f_le exact_ops (total_weight exact_ops [1 / 2048, 1 / 1024]) (f_zero exact_ops)"
    by (simp_all add: exact_total_weight_examples exact_ops_simps)
  have x: "div_1000_of_int64 exact_ops 875 = 7 / 8"
    "div_1000_of_int64 exact_ops 0 = 0"
    by (simp_all add: exact_ops_simps)
  show ?thesis
    using Choice_Generate_weighted [of "[''a'', ''b'']" "[3 / 4, 1 / 4]" exact_ops "Entropy 875"]
      Choice_Generate_weighted [of "[''a'', ''b'']" "[3 / 4, 1 / 4]" exact_ops "ReadError ''EOF''"]
      Choice_Generate_weighted [of "[''a'', ''b'']" "[0, 0]" exact_ops "Entropy 875"]
      Choice_Generate_weighted
        [of "[''a'', ''b'']" "[1 / 2048, 1 / 1024]" exact_ops "ReadError ''EOF''"]
      h p
    by (simp add: exact_draw_bound_examples x spec_weighted_choice_examples)
qed

text \<open>
  Claim C5 as stated fails by design for two values with the weights \<open>2^-11\<close> and
  \<open>2^-10\<close>. The sum \<open>W = 3 * 2^-11\<close> is positive and the target \<open>x = 2^-10\<close> lies in
  \<open>[0, W)\<close>; the walk the claim describes returns the second value for it, as for two
  thirds of \<open>[0, W)\<close>. The generator draws an integer below \<open>int64(W * 1000) = 1\<close>
  instead: it returns the first value whatever the random source delivers, and also
  when the source fails. It fails again for the weights \<open>2^-12\<close> and \<open>2^-12\<close>: \<open>W\<close> is
  positive, \<open>int64(W * 1000) = int64(0.48828125) = 0\<close> and \<open>rand.Int\<close> panics on the bound
  0, so that no value is returned. (All numbers involved are exact in \<open>float64\<close>.)
\<close>

theorem Choice_Generate_weighted_counterexample:
  "0 \<le> (1 / 1024 :: float64) \<and> (1 / 1024 :: float64) < total_weight exact_ops [1 / 2048, 1 / 1024]
   \<and> spec_weighted_choice exact_ops [''a'', ''b''] [1 / 2048, 1 / 1024] (1 / 1024) = ''b''
   \<and> ChoiceGenerator_Generate exact_ops [''a'', ''b''] [1 / 2048, 1 / 1024] (Entropy 1) = Ok ''a''
   \<and> ChoiceGenerator_Generate exact_ops [''a'', ''b''] [1 / 2048, 1 / 1024] (Entropy 2) = Ok ''a''
   \<and> ChoiceGenerator_Generate exact_ops [''a'', ''b''] [1 / 2048, 1 / 1024] (ReadError ''EOF'')
       = Ok ''a''
   \<and> ChoiceGenerator_Generate exact_ops [''a'', ''b''] [1 / 4096, 1 / 4096] (Entropy 0)
       = Panic ''crypto/rand: argument to Int is <= 0''"
proof -
  have s: "total_weight exact_ops [1 / 2048, 1 / 1024] = 3 / 2048"
    by (simp add: total_weight_def exact_ops_def)
  have c: "spec_weighted_choice exact_ops [''a'', ''b''] [1 / 2048, 1 / 1024] (1 / 1024) = ''b''"
    by (simp add: spec_weighted_choice_def first_reaching_index_def cumulative_weight_def
        total_weight_def exact_ops_def upt_conv_Cons)
  have g: "ChoiceGenerator_Generate exact_ops [''a'', ''b''] [1 / 2048, 1 / 1024] d = Ok ''a''"
    for d
    by (simp add: ChoiceGenerator_Generate_def generateWeightedChoice_def exact_ops_def
        float64_to_int64_def rand_Int_def index_def)
  have p: "ChoiceGenerator_Generate exact_ops [''a'', ''b''] [1 / 4096, 1 / 4096] (Entropy 0)
       = Panic ''crypto/rand: argument to Int is <= 0''"
    by (simp add: ChoiceGenerator_Generate_def generateWeightedChoice_def exact_ops_def
        float64_to_int64_def rand_Int_def)
  show ?thesis unfolding s by (simp add: c g p)
qed

text \<open>
  Claim C6 at three failing inputs: a \<open>randomString\<close> generator of length \<open>-1\<close> panics in
  \<open>make([]byte, -1)\<close>; a weighted choice with the positive weight sum \<open>2^-11\<close> panics in
  \<open>rand.Int\<close>; and so does a \<open>randomInt\<close> generator over the whole \<open>int\<close> range, whose
  range size wraps around to 0.
\<close>

theorem Generate_panics:
  "Generate (RandomStringGenerator (- 1) ''alphanumeric'') (zero_entropy [])
     = Panic ''runtime error: makeslice: len out of range''
   \<and> Generate (ChoiceGenerator [StringVal ''a''] [1 / 2048]) (zero_entropy [])
     = Panic ''crypto/rand: argument to Int is <= 0''
   \<and> Generate (RandomIntGenerator (- 0x8000000000000000) 0x7FFFFFFFFFFFFFFF) (zero_entropy [])
     = Panic ''crypto/rand: argument to Int is <= 0''"
  by (simp add: RandomStringGenerator_Generate_def ChoiceGenerator_Generate_def
      generateWeightedChoice_def RandomIntGenerator_Generate_def rand_Int_def
      exact_ops_def float64_to_int64_def word_sle_eq)

section \<open>Target selection\<close>

lemma selectEndpoint_roundRobin:
  assumes "Strategy (EndpointSelection cfg) \<noteq> ''weighted''"
    and "Strategy (EndpointSelection cfg) \<noteq> ''random''"
    and "range_order env \<noteq> []"
  shows "selectEndpoint cfg r env =
     (Ok (range_order env ! (unat (endpointIdx r) mod length (range_order env)),
          case map_of (Endpoints cfg)
                 (range_order env ! (unat (endpointIdx r) mod length (range_order env))) of
            Some endpoint \<Rightarrow> endpoint | None \<Rightarrow> zero_EndpointConfig),
      r\<lparr>endpointIdx := endpointIdx r + 1\<rparr>)"
  using assms
  by (simp add: selectEndpoint_def roundRobin_select_def roundRobin_pick_def index_def Let_def)

lemma abc_orders:
  "is_range_order abc_config [''a'', ''b'', ''c'']"
  "is_range_order abc_config [''c'', ''a'', ''b'']"
  "is_range_order abc_config [''b'', ''c'', ''a'']"
  by (auto simp: is_range_order_def abc_config_def)

lemma abc_strategy:
  "Strategy (EndpointSelection abc_config) \<noteq> ''weighted''"
  "Strategy (EndpointSelection abc_config) \<noteq> ''random''"
  by (simp_all add: abc_config_def)

lemma abc_step:
  "names \<noteq> [] \<Longrightarrow>
   selectEndpoint_calls abc_config r (order_env names # envs) =
     Ok (names ! (unat (endpointIdx r) mod length names))
       # selectEndpoint_calls abc_config (r\<lparr>endpointIdx := endpointIdx r + 1\<rparr>) envs"
  by (simp add: selectEndpoint_roundRobin abc_strategy order_env_def)

lemma abc_runner:
  "unat (endpointIdx NewRunner) = 0"
  "unat (endpointIdx (r\<lparr>endpointIdx := w\<rparr>)) = unat w"
  by (simp_all add: NewRunner_def)

text \<open>
  Claim C7 at a failing input: endpoints \<open>a\<close>, \<open>b\<close>, \<open>c\<close>, strategy \<open>roundRobin\<close>, six
  sequential calls. \<open>selectEndpoint\<close> rebuilds the name list from a \<open>range\<close> over the
  endpoint map in every call; when the six loops yield the keys in the (rotated) orders
  \<open>abc, cab, bca, abc, cab, bca\<close>, the six calls all select \<open>a\<close>, not \<open>a,b,c,a,b,c\<close>.
\<close>

theorem selectEndpoint_roundRobin_varying_order:
  "is_range_order abc_config [''a'', ''b'', ''c'']
   \<and> is_range_order abc_config [''c'', ''a'', ''b'']
   \<and> is_range_order abc_config [''b'', ''c'', ''a'']
   \<and> selectEndpoint_calls abc_config NewRunner
        [order_env [''a'', ''b'', ''c''], order_env [''c'', ''a'', ''b''],
         order_env [''b'', ''c'', ''a''], order_env [''a'', ''b'', ''c''],
         order_env [''c'', ''a'', ''b''], order_env [''b'', ''c'', ''a'']]
       = [Ok ''a'', Ok ''a'', Ok ''a'', Ok ''a'', Ok ''a'', Ok ''a'']"
  by (simp add: abc_orders abc_step NewRunner_def del: selectEndpoint_calls.simps(2))

text \<open>Were the iteration order the same in every call, the selection would rotate.\<close>

lemma selectEndpoint_roundRobin_fixed_order:
  "selectEndpoint_calls abc_config NewRunner
        [order_env [''a'', ''b'', ''c''], order_env [''a'', ''b'', ''c''],
         order_env [''a'', ''b'', ''c''], order_env [''a'', ''b'', ''c''],
         order_env [''a'', ''b'', ''c''], order_env [''a'', ''b'', ''c'']]
       = [Ok ''a'', Ok ''b'', Ok ''c'', Ok ''a'', Ok ''b'', Ok ''c'']"
  by (simp add: abc_step NewRunner_def del: selectEndpoint_calls.simps(2))

lemma selectBaseURL_roundRobin:
  "BaseUrls cfg \<noteq> [] \<Longrightarrow>
   selectBaseURL cfg r =
     (Ok (BaseUrls cfg ! (unat (urlIdx r) mod length (BaseUrls cfg))),
      r\<lparr>urlIdx := urlIdx r + 1\<rparr>)"
  by (simp add: selectBaseURL_def roundRobin_pick_def index_def)

lemma selectBaseURL_calls_step:
  "BaseUrls cfg \<noteq> [] \<Longrightarrow>
   selectBaseURL_calls cfg r (Suc n) =
     Ok (BaseUrls cfg ! (unat (urlIdx r) mod length (BaseUrls cfg)))
       # selectBaseURL_calls cfg (r\<lparr>urlIdx := urlIdx r + 1\<rparr>) n"
  by (simp add: selectBaseURL_roundRobin)

lemma abc_urls: "BaseUrls abc_config = [''http://u1'', ''http://u2'', ''http://u3'']"
  by (simp add: abc_config_def)

text \<open>The sibling \<open>selectBaseURL\<close> indexes a slice and does rotate.\<close>

lemma selectBaseURL_rotates:
  "selectBaseURL_calls abc_config NewRunner (Suc (Suc (Suc (Suc (Suc (Suc 0)))))) =
     [Ok ''http://u1'', Ok ''http://u2'', Ok ''http://u3'',
      Ok ''http://u1'', Ok ''http://u2'', Ok ''http://u3'']"
  by (simp add: selectBaseURL_calls_step abc_urls NewRunner_def
      del: selectBaseURL_calls.simps(2))

section \<open>Request executor and scheduler\<close>

lemma TrimSuffix_slash_append: "TrimSuffix (b @ ''/'') ''/'' = b"
  by (simp add: TrimSuffix_def HasSuffix_def)

lemma HasSuffix_slash: "HasSuffix s ''/'' \<longleftrightarrow> (\<exists>b. s = b @ ''/'')"
proof
  assume "HasSuffix s ''/''"
  then have "s = take (length s - 1) s @ ''/''"
    by (metis HasSuffix_def append_take_drop_id length_Cons list.size(3) One_nat_def)
  then show "\<exists>b. s = b @ ''/''" by blast
next
  assume "\<exists>b. s = b @ ''/''"
  then show "HasSuffix s ''/''" by (auto simp: HasSuffix_def)
qed

lemma strip_slashes_no_suffix:
  "\<not> HasSuffix s ''/'' \<Longrightarrow> rev (dropWhile (\<lambda>c. c = CHR ''/'') (rev s)) = s"
proof (cases s rule: rev_cases)
  case Nil
  then show ?thesis by simp
next
  case (snoc xs x)
  assume "\<not> HasSuffix s ''/''"
  then have "x \<noteq> CHR ''/''" using snoc by (auto simp: HasSuffix_def)
  then show ?thesis using snoc by simp
qed

lemma strip_slashes_TrimSuffix:
  "\<not> HasSuffix (TrimSuffix s ''/'') ''/'' \<Longrightarrow>
     rev (dropWhile (\<lambda>c. c = CHR ''/'') (rev s)) = TrimSuffix s ''/''"
proof (cases "HasSuffix s ''/''")
  case True
  assume n: "\<not> HasSuffix (TrimSuffix s ''/'') ''/''"
  from True obtain b where b: "s = b @ ''/''" using HasSuffix_slash by blast
  have t: "TrimSuffix s ''/'' = b" unfolding b by (rule TrimSuffix_slash_append)
  have "rev (dropWhile (\<lambda>c. c = CHR ''/'') (rev b)) = b"
    using n unfolding t by (rule strip_slashes_no_suffix)
  then show ?thesis unfolding t by (simp add: b)
next
  case False
  then show ?thesis by (simp add: strip_slashes_no_suffix TrimSuffix_def)
qed

text \<open>
  Claim C8, as amended. When the path parameters resolve, \<open>buildURL\<close> returns the base
  URL without one trailing \<open>/\<close> (if it ends with one), directly followed by the resolved
  path: it removes at most one slash and inserts none. So the result is the join with
  exactly one separating \<open>/\<close> when the resolved path begins with a single \<open>/\<close> and the
  base URL, after the removal, does not end with \<open>/\<close>.
\<close>

theorem buildURL_concatenates:
  "buildURL_loop path pathParams rnd = Ok fullPath \<longrightarrow>
     (HasSuffix baseURL ''/'' \<longrightarrow>
        (\<exists>b. baseURL = b @ ''/'' \<and> buildURL baseURL path pathParams rnd = Ok (b @ fullPath)))
   \<and> (\<not> HasSuffix baseURL ''/'' \<longrightarrow>
        buildURL baseURL path pathParams rnd = Ok (baseURL @ fullPath))
   \<and> (\<not> HasSuffix (TrimSuffix baseURL ''/'') ''/''
        \<and> (\<exists>p. fullPath = CHR ''/'' # p \<and> (p = [] \<or> hd p \<noteq> CHR ''/'')) \<longrightarrow>
        buildURL baseURL path pathParams rnd = Ok (one_slash_join baseURL fullPath))"
proof (intro impI conjI)
  assume l: "buildURL_loop path pathParams rnd = Ok fullPath"
  then have r: "buildURL baseURL path pathParams rnd = Ok (TrimSuffix baseURL ''/'' @ fullPath)"
    by (simp add: buildURL_def)
  {
    assume "HasSuffix baseURL ''/''"
    then obtain b where b: "baseURL = b @ ''/''" using HasSuffix_slash by blast
    have "buildURL baseURL path pathParams rnd = Ok (b @ fullPath)"
      unfolding r unfolding b by (simp add: TrimSuffix_slash_append)
    with b show "\<exists>b. baseURL = b @ ''/'' \<and> buildURL baseURL path pathParams rnd = Ok (b @ fullPath)"
      by blast
  }
  {
    assume "\<not> HasSuffix baseURL ''/''"
    then show "buildURL baseURL path pathParams rnd = Ok (baseURL @ fullPath)"
      unfolding r by (simp add: TrimSuffix_def)
  }
  {
    assume h: "\<not> HasSuffix (TrimSuffix baseURL ''/'') ''/''
        \<and> (\<exists>p. fullPath = CHR ''/'' # p \<and> (p = [] \<or> hd p \<noteq> CHR ''/''))"
    then obtain p where p: "fullPath = CHR ''/'' # p" "p = [] \<or> hd p \<noteq> CHR ''/''" by blast
    have d: "dropWhile (\<lambda>c. c = CHR ''/'') fullPath = p"
      using p by (cases p) auto
    have "one_slash_join baseURL fullPath = TrimSuffix baseURL ''/'' @ ''/'' @ p"
      using h by (simp add: one_slash_join_def strip_slashes_TrimSuffix d)
    then show "buildURL baseURL path pathParams rnd = Ok (one_slash_join baseURL fullPath)"
      unfolding r by (simp add: p)
  }
qed

lemma user_path: "buildURL_loop ''/users/{id}'' [(''id'', StringDef ''7'')] zero_entropy = Ok ''/users/7''"
  by simp

theorem buildURL_concatenates_witness:
  "buildURL_loop ''/users/{id}'' [(''id'', StringDef ''7'')] zero_entropy = Ok ''/users/7''
   \<and> HasSuffix ''http://h/'' ''/''
   \<and> (\<exists>b. ''http://h/'' = b @ ''/''
          \<and> buildURL ''http://h/'' ''/users/{id}'' [(''id'', StringDef ''7'')] zero_entropy
              = Ok (b @ ''/users/7''))
   \<and> \<not> HasSuffix ''http://h'' ''/''
   \<and> buildURL ''http://h'' ''/users/{id}'' [(''id'', StringDef ''7'')] zero_entropy
       = Ok (''http://h'' @ ''/users/7'')
   \<and> \<not> HasSuffix (TrimSuffix ''http://h/'' ''/'') ''/''
   \<and> (\<exists>p. ''/users/7'' = CHR ''/'' # p \<and> (p = [] \<or> hd p \<noteq> CHR ''/''))
   \<and> buildURL ''http://h/'' ''/users/{id}'' [(''id'', StringDef ''7'')] zero_entropy
       = Ok (one_slash_join ''http://h/'' ''/users/7'')"
proof -
  have l: "buildURL_loop ''/users/{id}'' [(''id'', StringDef ''7'')] zero_entropy = Ok ''/users/7''"
    by simp
  have s1: "HasSuffix ''http://h/'' ''/''" and s2: "\<not> HasSuffix ''http://h'' ''/''"
    and s3: "\<not> HasSuffix (TrimSuffix ''http://h/'' ''/'') ''/''"
    by (simp_all add: HasSuffix_def TrimSuffix_def)
  have p: "\<exists>p. ''/users/7'' = CHR ''/'' # p \<and> (p = [] \<or> hd p \<noteq> CHR ''/'')"
    by simp
  show ?thesis
    using buildURL_concatenates [of "''/users/{id}''" "[(''id'', StringDef ''7'')]" zero_entropy "''/users/7''" "''http://h/''"]
      buildURL_concatenates [of "''/users/{id}''" "[(''id'', StringDef ''7'')]" zero_entropy "''/users/7''" "''http://h''"]
      l s1 s2 s3 p by blast
qed

text \<open>
  Claim C8 as stated fails for a path without a leading \<open>/\<close> (no separator is inserted)
  and for a base URL with two trailing slashes (only one is removed).
\<close>

theorem buildURL_concatenates_counterexample:
  "buildURL ''http://h'' ''users'' [] zero_entropy = Ok ''http://husers''
   \<and> one_slash_join ''http://h'' ''users'' = ''http://h/users''
   \<and> buildURL ''http://h//'' ''/users'' [] zero_entropy = Ok ''http://h//users''
   \<and> one_slash_join ''http://h//'' ''/users'' = ''http://h/users''"
  by (simp add: buildURL_def TrimSuffix_def HasSuffix_def one_slash_join_def)

lemma url_Error_Error_nonempty: "url_Error_Error err \<noteq> []"
  by (cases err) simp

text \<open>
  What \<open>makeRequest\<close> does when it returns: every failure of a step it handles gives a
  record with status code 0, \<open>IsError\<close> set and a non-empty message; a response gives
  its status code with \<open>IsError\<close> unset. It never returns an error itself.
\<close>

lemma makeRequest_record:
  "makeRequest baseURL endpointName endpoint env = Ok m \<Longrightarrow>
     (IsError m \<and> StatusCode m = 0 \<and> ErrorMsg m \<noteq> [])
   \<or> (\<exists>code. client_Do env = Inr code \<and> StatusCode m = code \<and> \<not> IsError m \<and> ErrorMsg m = [])"
  by (auto simp: makeRequest_def createErrorMetric_def url_Error_Error_nonempty
      split: result.splits option.splits sum.splits if_splits)

lemma makeRequest_not_Err: "makeRequest baseURL endpointName endpoint env \<noteq> Err e"
  by (auto simp: makeRequest_def split: result.splits option.splits sum.splits if_splits)

text \<open>A panic of \<open>makeRequest\<close> is the panic of one of its parameter generators.\<close>

lemma makeRequest_Panic_origin:
  "makeRequest baseURL endpointName endpoint env = Panic m \<Longrightarrow>
     buildURL baseURL (Path endpoint) (PathParameters endpoint) (path_rnd env) = Panic m
   \<or> (\<exists>u. addQueryParams u (QueryParameters endpoint) env = Panic m)
   \<or> (\<exists>b. BodyParameters endpoint = Some b \<and> generateRequestBody b env = Panic m)"
  by (auto simp: makeRequest_def split: result.splits option.splits sum.splits if_splits
      elim!: map_result.elims)

text \<open>
  Claim C3 at a failing input: an endpoint whose path parameter \<open>id\<close> is a
  \<open>randomString\<close> generator of length \<open>-1\<close>. Path-parameter resolution fails by a panic
  in \<open>make([]byte, -1)\<close>, which nothing recovers: \<open>makeRequest\<close> returns no record.
\<close>

theorem makeRequest_generator_panic:
  "makeRequest ''http://h'' ''user'' bad_endpoint ok_env
     = Panic ''runtime error: makeslice: len out of range''"
  by (simp add: makeRequest_def buildURL_def bad_endpoint_def ok_env_def
      RandomStringGenerator_Generate_def)

lemma makeRequest_response_example:
  "makeRequest ''http://h/'' ''user'' user_endpoint ok_env
     = Ok \<lparr>URL = ''http://h/users/7'', Method = ''GET'', StatusCode = 200, Duration = 1000,
           IsError = False, ErrorMsg = [], Timestamp = 1\<rparr>"
  by (simp add: makeRequest_def buildURL_def user_endpoint_def ok_env_def TrimSuffix_def
      HasSuffix_def)


text \<open>
  Claim C9. \<open>Run\<close> in mode \<open>fixed\<close> with a non-positive \<open>requestsPerSecond\<close>, no endpoint
  or no base URL returns an error and leaves the state as it was, whatever the timers
  would have delivered: no request goroutine is started and no record is appended. A
  mode other than \<open>fixed\<close> and \<open>ramp\<close> returns the error \<open>unknown mode\<close> likewise.
\<close>

theorem Run_rejects_invalid_config:
  "(Mode (Execution cfg) = ''fixed''
      \<and> (sint (RequestsPerSecond (Execution cfg)) \<le> 0 \<or> Endpoints cfg = [] \<or> BaseUrls cfg = [])
      \<longrightarrow> (\<exists>msg. Run cfg events st = (Err msg, st)))
   \<and> (Mode (Execution cfg) \<noteq> ''fixed'' \<and> Mode (Execution cfg) \<noteq> ''ramp''
      \<longrightarrow> Run cfg events st = (Err (''unknown mode: '' @ Mode (Execution cfg)), st))"
  by (auto simp: Run_def runFixedRPSMode_def word_sle_eq)

theorem Run_rejects_invalid_config_witness:
  "Mode (Execution zero_rps_config) = ''fixed''
   \<and> sint (RequestsPerSecond (Execution zero_rps_config)) \<le> 0
   \<and> (\<exists>msg. Run zero_rps_config [Tick sample_task] NewRunState = (Err msg, NewRunState))
   \<and> Mode (Execution burst_config) \<noteq> ''fixed'' \<and> Mode (Execution burst_config) \<noteq> ''ramp''
   \<and> Run burst_config [Tick sample_task] NewRunState = (Err ''unknown mode: burst'', NewRunState)"
proof -
  have z: "Mode (Execution zero_rps_config) = ''fixed''"
    "sint (RequestsPerSecond (Execution zero_rps_config)) \<le> 0"
    by (simp_all add: zero_rps_config_def abc_config_def)
  have b: "Mode (Execution burst_config) = ''burst''"
    by (simp add: burst_config_def)
  show ?thesis
    using Run_rejects_invalid_config [of zero_rps_config "[Tick sample_task]" NewRunState]
      Run_rejects_invalid_config [of burst_config "[Tick sample_task]" NewRunState] z b
    by simp
qed

text \<open>A valid configuration does dispatch: one tick starts one goroutine and yields one record.\<close>

lemma Run_dispatches:
  "Run abc_config [Tick sample_task, DurationReached] NewRunState =
     (Ok (),
      \<lparr>runner = \<lparr>endpointIdx = 1, urlIdx = 1\<rparr>,
       collector = \<lparr>allRequests =
         [\<lparr>URL = ''http://u1/items'', Method = ''GET'', StatusCode = 200, Duration = 1000,
           IsError = False, ErrorMsg = [], Timestamp = 1\<rparr>]\<rparr>,
       spawned = 1\<rparr>)"
proof -
  have sel: "selectEndpoint abc_config NewRunner (order_env [''b'', ''c'', ''a''])
      = (Ok (''b'', get_endpoint), \<lparr>endpointIdx = 1, urlIdx = 0\<rparr>)"
    by (simp add: selectEndpoint_roundRobin abc_strategy order_env_def NewRunner_def
        abc_config_def)
  have url: "selectBaseURL abc_config \<lparr>endpointIdx = 1, urlIdx = 0\<rparr>
      = (Ok ''http://u1'', \<lparr>endpointIdx = 1, urlIdx = 1\<rparr>)"
    by (simp add: selectBaseURL_roundRobin abc_urls)
  have req: "makeRequest ''http://u1'' ''b'' get_endpoint ok_env
      = Ok \<lparr>URL = ''http://u1/items'', Method = ''GET'', StatusCode = 200, Duration = 1000,
           IsError = False, ErrorMsg = [], Timestamp = 1\<rparr>"
    by (simp add: makeRequest_def buildURL_def get_endpoint_def ok_env_def TrimSuffix_def
        HasSuffix_def)
  have task: "request_task abc_config (NewRunState\<lparr>spawned := Suc (spawned NewRunState)\<rparr>) sample_task
      = Ok \<lparr>runner = \<lparr>endpointIdx = 1, urlIdx = 1\<rparr>,
       collector = \<lparr>allRequests =
         [\<lparr>URL = ''http://u1/items'', Method = ''GET'', StatusCode = 200, Duration = 1000,
           IsError = False, ErrorMsg = [], Timestamp = 1\<rparr>]\<rparr>,
       spawned = 1\<rparr>"
    by (simp add: request_task_def NewRunState_def sample_task_def sel url req AppendDetail_def
        NewCollector_def)
  have cfg: "Mode (Execution abc_config) = ''fixed''"
    "\<not> RequestsPerSecond (Execution abc_config) \<le>s 0"
    "Endpoints abc_config \<noteq> []" "BaseUrls abc_config \<noteq> []"
    "\<not> int64_div 1000000000 (RequestsPerSecond (Execution abc_config)) \<le>s 0"
    by (simp_all add: abc_config_def word_sle_eq int64_div_def signed_divide_int_def)
  show ?thesis
    by (simp add: Run_def runFixedRPSMode_def cfg task)
qed

end
